theory Spec2Isabelle
  imports Main "HOL-Library.AList" "HOL-Library.Sublist"
begin

section \<open>Python values and exceptions\<close>

text \<open>
  The client of \<^verbatim>\<open>src/main.py\<close> exchanges JSON with the server and with its cookie
  file. A parsed JSON document is a Python value: \<^verbatim>\<open>None\<close>, a bool, an int, a
  str, a list or a dict (a dict keeps its keys in insertion order, so it is an
  association list whose keys are distinct). Floating-point numbers are not part of
  this model.
\<close>

datatype json =
    JNull
  | JBool bool
  | JInt int
  | JStr string
  | JList "json list"
  | JObj "(string \<times> json) list"

text \<open>
  The exceptions the code can meet. \<open>ConnectionError\<close>, \<open>HTTPError\<close> (raised by
  \<^verbatim>\<open>raise_for_status\<close>) and \<open>JSONDecodeError\<close> (raised by \<^verbatim>\<open>Response.json\<close>, as of
  requests 2.27) are the subclasses of \<^verbatim>\<open>requests.RequestException\<close>; the others are
  Python's own.
  \<open>MissingCredentials\<close> and \<open>NoCookiesInResponse\<close> are the two \<^verbatim>\<open>ValueError\<close>s
  that the code raises itself.
\<close>

datatype exn =
    ConnectionError
  | HTTPError
  | JSONDecodeError
  | TypeError
  | AttributeError
  | KeyError
  | IndexError
  | FileNotFoundError
  | PermissionError
  | MissingCredentials
  | NoCookiesInResponse

fun is_RequestException :: "exn \<Rightarrow> bool" where
  "is_RequestException ConnectionError = True"
| "is_RequestException HTTPError = True"
| "is_RequestException JSONDecodeError = True"
| "is_RequestException _ = False"

text \<open>Truth value of a Python object (\<^verbatim>\<open>if x\<close>, \<^verbatim>\<open>not x\<close>, \<^verbatim>\<open>x and y\<close>).\<close>

fun py_truthy :: "json \<Rightarrow> bool" where
  "py_truthy JNull = False"
| "py_truthy (JBool b) = b"
| "py_truthy (JInt i) = (i \<noteq> 0)"
| "py_truthy (JStr s) = (s \<noteq> [])"
| "py_truthy (JList xs) = (xs \<noteq> [])"
| "py_truthy (JObj kvs) = (kvs \<noteq> [])"

text \<open>\<^verbatim>\<open>for c in x\<close>: a list yields its elements, a dict its keys, a str its
  characters; nothing else is iterable.\<close>

fun py_iter :: "json \<Rightarrow> exn + json list" where
  "py_iter (JList xs) = Inr xs"
| "py_iter (JObj kvs) = Inr (map (\<lambda>kv. JStr (fst kv)) kvs)"
| "py_iter (JStr s) = Inr (map (\<lambda>ch. JStr [ch]) s)"
| "py_iter _ = Inl TypeError"

text \<open>\<^verbatim>\<open>c.get(key, default)\<close>: only a dict has the method.\<close>

fun py_get :: "json \<Rightarrow> string \<Rightarrow> json \<Rightarrow> exn + json" where
  "py_get (JObj kvs) k d = Inr (case map_of kvs k of None \<Rightarrow> d | Some v \<Rightarrow> v)"
| "py_get _ k d = Inl AttributeError"

text \<open>\<^verbatim>\<open>c[key]\<close> with a string key: a dict looks the key up, a str or a list
  wants an integer index, nothing else is subscriptable.\<close>

fun py_getitem :: "json \<Rightarrow> string \<Rightarrow> exn + json" where
  "py_getitem (JObj kvs) k = (case map_of kvs k of None \<Rightarrow> Inl KeyError | Some v \<Rightarrow> Inr v)"
| "py_getitem _ k = Inl TypeError"

text \<open>\<^verbatim>\<open>c[0]\<close>: the first element of a list, the first character of a str; a
  parsed JSON dict has only string keys, so the key \<open>0\<close> is never there.\<close>

fun py_index0 :: "json \<Rightarrow> exn + json" where
  "py_index0 (JList []) = Inl IndexError"
| "py_index0 (JList (x # xs)) = Inr x"
| "py_index0 (JStr []) = Inl IndexError"
| "py_index0 (JStr (ch # s)) = Inr (JStr [ch])"
| "py_index0 (JObj kvs) = Inl KeyError"
| "py_index0 _ = Inl TypeError"

fun starts_with :: "string \<Rightarrow> string \<Rightarrow> bool" where
  "starts_with [] s = True"
| "starts_with (p # ps) [] = False"
| "starts_with (p # ps) (ch # s) = (p = ch \<and> starts_with ps s)"

fun contains_str :: "string \<Rightarrow> string \<Rightarrow> bool" where
  "contains_str sub [] = (sub = [])"
| "contains_str sub (ch # s) = (starts_with sub (ch # s) \<or> contains_str sub s)"

text \<open>\<^verbatim>\<open>key in c\<close> with a string key: a key of a dict, an element of a list, a
  substring of a str.\<close>

fun py_in :: "string \<Rightarrow> json \<Rightarrow> exn + bool" where
  "py_in k (JObj kvs) = Inr (k \<in> set (map fst kvs))"
| "py_in k (JList xs) = Inr (JStr k \<in> set xs)"
| "py_in k (JStr s) = Inr (contains_str k s)"
| "py_in k _ = Inl TypeError"

text \<open>\<^verbatim>\<open>exp < now\<close> with \<open>now\<close> an int: ints compare, a bool is the int 0 or 1,
  anything else raises.\<close>

fun py_lt_int :: "json \<Rightarrow> int \<Rightarrow> exn + bool" where
  "py_lt_int (JInt i) n = Inr (i < n)"
| "py_lt_int (JBool b) n = Inr ((if b then 1 else 0) < n)"
| "py_lt_int _ n = Inl TypeError"

section \<open>The cookie file and its expiry check\<close>

text \<open>
  What \<^verbatim>\<open>self.cookie_file\<close> is on disk: absent, present but not readable as JSON
  (\<^verbatim>\<open>open\<close> or \<^verbatim>\<open>json.load\<close> raises), or present with a parsed document.
\<close>

datatype file_state = NoFile | Unreadable | Content json

text \<open>The loop of \<^verbatim>\<open>_is_cookie_expired\<close> over the parsed cookies, with \<open>now\<close> the
  value of \<^verbatim>\<open>int(time.time())\<close>. The message of an expired cookie reads
  \<^verbatim>\<open>c['name']\<close>, which can raise.\<close>

fun expired_loop :: "json list \<Rightarrow> int \<Rightarrow> exn + bool" where
  "expired_loop [] now = Inr False"
| "expired_loop (c # cs) now =
     (case py_get c ''expiry'' (JInt 0) of
        Inl e \<Rightarrow> Inl e
      | Inr exp \<Rightarrow>
          if py_truthy exp then
            (case py_lt_int exp now of
               Inl e \<Rightarrow> Inl e
             | Inr True \<Rightarrow> (case py_getitem c ''name'' of Inl e \<Rightarrow> Inl e | Inr n \<Rightarrow> Inr True)
             | Inr False \<Rightarrow> expired_loop cs now)
          else expired_loop cs now)"

text \<open>\<^verbatim>\<open>_is_cookie_expired\<close>: every exception inside the \<^verbatim>\<open>try\<close> gives \<open>True\<close>.\<close>

fun is_cookie_expired :: "file_state \<Rightarrow> int \<Rightarrow> bool" where
  "is_cookie_expired NoFile now = True"
| "is_cookie_expired Unreadable now = True"
| "is_cookie_expired (Content j) now =
     (case py_iter j of
        Inl e \<Rightarrow> True
      | Inr cs \<Rightarrow> (case expired_loop cs now of Inl e \<Rightarrow> True | Inr b \<Rightarrow> b))"

text \<open>The recorded expiry of one cookie entry of the file, as the check reads it: an
  entry that is a dict whose \<open>expiry\<close> is a non-zero int has that expiry; a dict
  without the key, or with the value 0, has none.\<close>

fun recorded_expiry :: "json \<Rightarrow> int option option" where
  "recorded_expiry (JObj kvs) =
     (case map_of kvs ''expiry'' of
        None \<Rightarrow> Some None
      | Some (JInt i) \<Rightarrow> Some (if i = 0 then None else Some i)
      | Some v \<Rightarrow> None)"
| "recorded_expiry _ = None"

definition expiry_past :: "int \<Rightarrow> json \<Rightarrow> bool" where
  "expiry_past now c = (case recorded_expiry c of Some (Some i) \<Rightarrow> i < now | _ \<Rightarrow> False)"

definition expiry_future_or_unset :: "int \<Rightarrow> json \<Rightarrow> bool" where
  "expiry_future_or_unset now c =
     (case recorded_expiry c of Some None \<Rightarrow> True | Some (Some i) \<Rightarrow> now \<le> i | None \<Rightarrow> False)"

section \<open>The session's cookie jar\<close>

text \<open>
  \<^verbatim>\<open>self.session.cookies\<close> is a \<^verbatim>\<open>RequestsCookieJar\<close> of the requests library. A
  cookie of the jar has a name, a value, a domain, a path and an optional expiry
  (\<^verbatim>\<open>Cookie.expires\<close>, \<open>None\<close> for a session cookie). The jar stores its cookies
  in nested dicts, domain to path to name, and iterates them in that order.
\<close>

record cookie =
  ck_name :: json
  ck_value :: json
  ck_domain :: string
  ck_path :: string
  ck_expires :: "int option"

type_synonym jar = "(string \<times> (string \<times> (json \<times> cookie) list) list) list"

text \<open>A name as a dict key: Python hashes \<^verbatim>\<open>True\<close> and \<^verbatim>\<open>1\<close> to the same key, and
  a list or a dict cannot be a key.\<close>

fun py_key :: "json \<Rightarrow> exn + json" where
  "py_key (JBool b) = Inr (JInt (if b then 1 else 0))"
| "py_key (JList xs) = Inl TypeError"
| "py_key (JObj kvs) = Inl TypeError"
| "py_key v = Inr v"

definition dict_get :: "('k \<times> 'v list) list \<Rightarrow> 'k \<Rightarrow> 'v list" where
  "dict_get d k = (case map_of d k of None \<Rightarrow> [] | Some v \<Rightarrow> v)"

text \<open>\<^verbatim>\<open>for c in jar\<close>.\<close>

definition jar_cookies :: "jar \<Rightarrow> cookie list" where
  "jar_cookies J = concat (map (\<lambda>dc. concat (map (\<lambda>pc. map snd (snd pc)) (snd dc))) J)"

text \<open>\<^verbatim>\<open>CookieJar.set_cookie\<close>: the dicts of the domain and of the path are created
  when missing, then the cookie is stored under its name.\<close>

definition jar_set_cookie :: "cookie \<Rightarrow> jar \<Rightarrow> (exn + unit) \<times> jar" where
  "jar_set_cookie c J =
     (let c2 = dict_get J (ck_domain c);
          c3 = dict_get c2 (ck_path c)
      in case py_key (ck_name c) of
           Inl e \<Rightarrow> (Inl e, AList.update (ck_domain c) (AList.update (ck_path c) c3 c2) J)
         | Inr k \<Rightarrow>
             (Inr (),
              AList.update (ck_domain c) (AList.update (ck_path c) (AList.update k c c3) c2) J))"

text \<open>\<^verbatim>\<open>CookieJar.clear(domain, path, name)\<close> for a cookie that is in the jar.\<close>

definition jar_clear :: "cookie \<Rightarrow> jar \<Rightarrow> jar" where
  "jar_clear c J =
     (let c2 = dict_get J (ck_domain c);
          c3 = dict_get c2 (ck_path c)
      in case py_key (ck_name c) of
           Inl e \<Rightarrow> J
         | Inr k \<Rightarrow>
             AList.update (ck_domain c) (AList.update (ck_path c) (AList.delete k c3) c2) J)"

text \<open>\<^verbatim>\<open>remove_cookie_by_name(jar, name, domain)\<close> of requests: every cookie of that
  name, and of that domain when one is given, is cleared.\<close>

definition name_matches :: "json \<Rightarrow> json \<Rightarrow> cookie \<Rightarrow> bool" where
  "name_matches n d c =
     ((case py_key n of Inl e \<Rightarrow> False | Inr k \<Rightarrow> py_key (ck_name c) = Inr k) \<and>
      (d = JNull \<or> d = JStr (ck_domain c)))"

definition remove_cookie_by_name :: "json \<Rightarrow> json \<Rightarrow> jar \<Rightarrow> jar" where
  "remove_cookie_by_name n d J = fold jar_clear (filter (name_matches n d) (jar_cookies J)) J"

text \<open>\<^verbatim>\<open>RequestsCookieJar.set_cookie\<close> rewrites a string value that starts and ends
  with a double quote: every backslash followed by a double quote is removed.\<close>

fun remove_escaped_quotes :: "string \<Rightarrow> string" where
  "remove_escaped_quotes (a # b # s) =
     (if a = CHR 0x5C \<and> b = CHR 0x22 then remove_escaped_quotes s
      else a # remove_escaped_quotes (b # s))"
| "remove_escaped_quotes s = s"

fun unquote_value :: "json \<Rightarrow> json" where
  "unquote_value (JStr s) =
     (if s \<noteq> [] \<and> hd s = CHR 0x22 \<and> last s = CHR 0x22 then JStr (remove_escaped_quotes s)
      else JStr s)"
| "unquote_value v = v"

text \<open>\<^verbatim>\<open>session.cookies.set(name=, value=, domain=)\<close>: the value \<open>None\<close> unsets the
  cookie; otherwise \<^verbatim>\<open>create_cookie\<close> builds a cookie of path \<open>/\<close> with no expiry
  (it calls \<^verbatim>\<open>domain.startswith\<close>, so the domain must be a str) and the jar stores it.\<close>

definition jar_set :: "json \<Rightarrow> json \<Rightarrow> json \<Rightarrow> jar \<Rightarrow> (exn + unit) \<times> jar" where
  "jar_set n v d J =
     (if v = JNull then (Inr (), remove_cookie_by_name n d J)
      else case d of
             JStr dn \<Rightarrow>
               jar_set_cookie
                 \<lparr>ck_name = n, ck_value = unquote_value v, ck_domain = dn,
                  ck_path = ''/'', ck_expires = None\<rparr> J
           | _ \<Rightarrow> (Inl AttributeError, J))"

section \<open>The client and its environment\<close>

text \<open>
  The server is a script of replies, one taken by each request; a request that finds
  the script empty fails like one whose connection fails. A reply carries the status
  code and the body as \<^verbatim>\<open>Response.json\<close> parses it (\<open>None\<close> when it is not JSON).
  Cookies that the server sets through response headers are not part of a reply.
\<close>

datatype reply = NetFail | Reply nat "json option"

datatype request =
    LoginPost string string
  | ProfileGet
  | UploadPost string
  | ResumePost string json
  | HeadlinePost string json

datatype event = ExpiryCheck | Sent request

text \<open>
  The client object with the part of the world it acts on: the credentials, the jar
  of the session, the cookie file on disk, the clock (\<^verbatim>\<open>int(time.time())\<close>, taken
  as the same instant within one run), the server's script and the trace of what the
  client did so far. Writing the cookie file is taken to succeed.
\<close>

record client =
  username :: string
  password :: string
  jar :: jar
  cookie_file :: file_state
  clock :: int
  server :: "reply list"
  trace :: "event list"

definition send :: "request \<Rightarrow> client \<Rightarrow> (exn + nat \<times> json option) \<times> client" where
  "send rq c =
     (let c' = c\<lparr>trace := trace c @ [Sent rq]\<rparr>
      in case server c of
           [] \<Rightarrow> (Inl ConnectionError, c')
         | NetFail # rs \<Rightarrow> (Inl ConnectionError, c'\<lparr>server := rs\<rparr>)
         | Reply st body # rs \<Rightarrow> (Inr (st, body), c'\<lparr>server := rs\<rparr>))"

text \<open>\<^verbatim>\<open>Response.raise_for_status\<close> raises for the 4xx and 5xx codes.\<close>

definition raise_for_status :: "nat \<Rightarrow> bool" where
  "raise_for_status st = (400 \<le> st \<and> st < 600)"

text \<open>The loop of \<^verbatim>\<open>_set_cookies_from_json\<close>; an exception leaves the jar with the
  cookies set before it.\<close>

fun set_cookies_loop :: "json list \<Rightarrow> jar \<Rightarrow> (exn + unit) \<times> jar" where
  "set_cookies_loop [] J = (Inr (), J)"
| "set_cookies_loop (c # cs) J =
     (case py_in ''name'' c of
        Inl e \<Rightarrow> (Inl e, J)
      | Inr False \<Rightarrow> set_cookies_loop cs J
      | Inr True \<Rightarrow>
          (case py_in ''value'' c of
             Inl e \<Rightarrow> (Inl e, J)
           | Inr False \<Rightarrow> set_cookies_loop cs J
           | Inr True \<Rightarrow>
               (case py_getitem c ''name'' of
                  Inl e \<Rightarrow> (Inl e, J)
                | Inr n \<Rightarrow>
                    (case py_getitem c ''value'' of
                       Inl e \<Rightarrow> (Inl e, J)
                     | Inr v \<Rightarrow>
                         (case py_get c ''domain'' (JStr ''.naukri.com'') of
                            Inl e \<Rightarrow> (Inl e, J)
                          | Inr d \<Rightarrow>
                              (case jar_set n v d J of
                                 (Inl e, J') \<Rightarrow> (Inl e, J')
                               | (Inr u, J') \<Rightarrow> set_cookies_loop cs J'))))))"

definition set_cookies_from_json :: "json \<Rightarrow> jar \<Rightarrow> (exn + unit) \<times> jar" where
  "set_cookies_from_json cookie_list J =
     (case py_iter cookie_list of
        Inl e \<Rightarrow> (Inl e, J)
      | Inr cs \<Rightarrow> set_cookies_loop cs J)"

text \<open>\<^verbatim>\<open>_save_cookies\<close>: one entry per cookie of the jar, then the file is written.\<close>

definition saved_entry :: "int \<Rightarrow> cookie \<Rightarrow> json" where
  "saved_entry now c =
     JObj [(''name'', ck_name c), (''value'', ck_value c), (''domain'', JStr (ck_domain c)),
           (''expiry'', JInt (now + 3600))]"

definition save_cookies :: "client \<Rightarrow> client" where
  "save_cookies c =
     c\<lparr>cookie_file := Content (JList (map (saved_entry (clock c)) (jar_cookies (jar c))))\<rparr>"

text \<open>\<^verbatim>\<open>_load_cookies\<close>: nothing without a file; an exception is printed and dropped.\<close>

definition load_cookies :: "client \<Rightarrow> client" where
  "load_cookies c =
     (case cookie_file c of
        NoFile \<Rightarrow> c
      | Unreadable \<Rightarrow> c
      | Content cookies_dict \<Rightarrow> c\<lparr>jar := snd (set_cookies_from_json cookies_dict (jar c))\<rparr>)"

text \<open>\<^verbatim>\<open>login\<close>: an exception escapes to the caller.\<close>

definition login :: "client \<Rightarrow> (exn + unit) \<times> client" where
  "login c =
     (case send (LoginPost (username c) (password c)) c of
        (Inl e, c1) \<Rightarrow> (Inl e, c1)
      | (Inr (st, body), c1) \<Rightarrow>
          if raise_for_status st then (Inl HTTPError, c1)
          else
            (case body of
               None \<Rightarrow> (Inl JSONDecodeError, c1)
             | Some data \<Rightarrow>
                 (case py_in ''cookies'' data of
                    Inl e \<Rightarrow> (Inl e, c1)
                  | Inr False \<Rightarrow> (Inl NoCookiesInResponse, c1)
                  | Inr True \<Rightarrow>
                      (case py_getitem data ''cookies'' of
                         Inl e \<Rightarrow> (Inl e, c1)
                       | Inr cookie_list \<Rightarrow>
                           (case set_cookies_from_json cookie_list (jar c1) of
                              (Inl e, J) \<Rightarrow> (Inl e, c1\<lparr>jar := J\<rparr>)
                            | (Inr u, J) \<Rightarrow> (Inr (), save_cookies (c1\<lparr>jar := J\<rparr>)))))))"

section \<open>The API operations\<close>

text \<open>A call of \<^verbatim>\<open>_is_cookie_expired\<close> by an operation, recorded in the trace.\<close>

definition check_expired :: "client \<Rightarrow> bool \<times> client" where
  "check_expired c =
     (is_cookie_expired (cookie_file c) (clock c), c\<lparr>trace := trace c @ [ExpiryCheck]\<rparr>)"

text \<open>What \<^verbatim>\<open>get_profile\<close> returns for a response: the parsed body for status 200
  (\<open>JNull\<close> stands for Python's \<open>None\<close>, also when the body does not parse: the
  \<^verbatim>\<open>except Exception\<close> returns \<open>None\<close>).\<close>

definition profile_result :: "nat \<Rightarrow> json option \<Rightarrow> json" where
  "profile_result st body =
     (if st = 200 then (case body of None \<Rightarrow> JNull | Some j \<Rightarrow> j) else JNull)"

text \<open>The \<^verbatim>\<open>try\<close> block of \<^verbatim>\<open>get_profile\<close> (lines 89 to 103): every exception in it,
  also one of the forced \<^verbatim>\<open>login\<close>, ends in \<open>None\<close>.\<close>

definition get_profile_try :: "client \<Rightarrow> json \<times> client" where
  "get_profile_try c =
     (case send ProfileGet c of
        (Inl e, c1) \<Rightarrow> (JNull, c1)
      | (Inr (st, body), c1) \<Rightarrow>
          if st = 401 then
            (case login c1 of
               (Inl e, c2) \<Rightarrow> (JNull, c2)
             | (Inr u, c2) \<Rightarrow>
                 (case send ProfileGet c2 of
                    (Inl e, c3) \<Rightarrow> (JNull, c3)
                  | (Inr (st', body'), c3) \<Rightarrow> (profile_result st' body', c3)))
          else (profile_result st body, c1))"

text \<open>\<^verbatim>\<open>get_profile\<close>: the \<^verbatim>\<open>login\<close> of an expired session is outside the \<^verbatim>\<open>try\<close>.\<close>

definition get_profile :: "client \<Rightarrow> (exn + json) \<times> client" where
  "get_profile c =
     (case check_expired c of
        (True, c0) \<Rightarrow>
          (case login c0 of
             (Inl e, c1) \<Rightarrow> (Inl e, c1)
           | (Inr u, c1) \<Rightarrow> (case get_profile_try c1 of (r, c2) \<Rightarrow> (Inr r, c2)))
      | (False, c0) \<Rightarrow> (case get_profile_try c0 of (r, c2) \<Rightarrow> (Inr r, c2)))"

text \<open>\<^verbatim>\<open>update_resume\<close>: every failure of the request is caught and gives \<open>False\<close>.\<close>

definition update_resume :: "string \<Rightarrow> json \<Rightarrow> client \<Rightarrow> bool \<times> client" where
  "update_resume file_key profile_id c =
     (case send (ResumePost file_key profile_id) c of
        (Inl e, c1) \<Rightarrow> (False, c1)
      | (Inr (st, body), c1) \<Rightarrow>
          if raise_for_status st then (False, c1) else (st = 200, c1))"

text \<open>\<^verbatim>\<open>profile_data['profile'][0]['profileId']\<close>.\<close>

definition profile_id_of :: "json \<Rightarrow> exn + json" where
  "profile_id_of profile_data =
     (case py_getitem profile_data ''profile'' of
        Inl e \<Rightarrow> Inl e
      | Inr pl \<Rightarrow>
          (case py_index0 pl of
             Inl e \<Rightarrow> Inl e
           | Inr pr \<Rightarrow> py_getitem pr ''profileId''))"

text \<open>What \<^verbatim>\<open>open(file_path, "rb")\<close> meets.\<close>

datatype local_file = Missing | Denied | Readable

text \<open>The \<^verbatim>\<open>try\<close> block of \<^verbatim>\<open>upload_resume\<close>; the results \<open>None\<close>, \<open>False\<close> and
  \<open>True\<close> are \<open>JNull\<close> and \<open>JBool\<close>.\<close>

definition upload_try :: "string \<Rightarrow> local_file \<Rightarrow> client \<Rightarrow> (exn + json) \<times> client" where
  "upload_try file_path opened c =
     (case opened of
        Missing \<Rightarrow> (Inl FileNotFoundError, c)
      | Denied \<Rightarrow> (Inl PermissionError, c)
      | Readable \<Rightarrow>
          (case send (UploadPost file_path) c of
             (Inl e, c1) \<Rightarrow> (Inl e, c1)
           | (Inr (st, body), c1) \<Rightarrow>
               if raise_for_status st then (Inl HTTPError, c1)
               else
                 (case body of
                    None \<Rightarrow> (Inl JSONDecodeError, c1)
                  | Some (JObj (kv # kvs)) \<Rightarrow>
                      (case get_profile c1 of
                         (Inl e, c2) \<Rightarrow> (Inl e, c2)
                       | (Inr profile_data, c2) \<Rightarrow>
                           (case profile_id_of profile_data of
                              Inl e \<Rightarrow> (Inl e, c2)
                            | Inr profile_id \<Rightarrow>
                                if \<not> py_truthy profile_id then (Inr (JBool False), c2)
                                else
                                  (case update_resume (fst kv) profile_id c2 of
                                     (b, c3) \<Rightarrow> (Inr (JBool b), c3))))
                  | Some resp_json \<Rightarrow> (Inr JNull, c1))))"

text \<open>\<^verbatim>\<open>upload_resume\<close>: the two handlers catch \<^verbatim>\<open>FileNotFoundError\<close> and
  \<^verbatim>\<open>requests.RequestException\<close>; any other exception escapes.\<close>

definition upload_resume :: "string \<Rightarrow> local_file \<Rightarrow> client \<Rightarrow> (exn + json) \<times> client" where
  "upload_resume file_path opened c =
     (case upload_try file_path opened c of
        (Inl e, c') \<Rightarrow>
          if e = FileNotFoundError then (Inr JNull, c')
          else if is_RequestException e then (Inr JNull, c')
          else (Inl e, c')
      | (Inr r, c') \<Rightarrow> (Inr r, c'))"

text \<open>\<^verbatim>\<open>current_headline.rstrip(".")\<close>.\<close>

definition rstrip_dot :: "string \<Rightarrow> string" where
  "rstrip_dot s = rev (dropWhile (\<lambda>ch. ch = CHR ''.'') (rev s))"

text \<open>The \<^verbatim>\<open>try\<close> block of \<^verbatim>\<open>refresh_resume_headline\<close> (lines 254 to 280).\<close>

definition headline_try :: "string \<Rightarrow> string \<Rightarrow> json \<Rightarrow> client \<Rightarrow> bool \<times> client" where
  "headline_try headline_with_dot current_headline profile_id c =
     (case send (HeadlinePost headline_with_dot profile_id) c of
        (Inl e, c1) \<Rightarrow> (False, c1)
      | (Inr (st, body), c1) \<Rightarrow>
          if raise_for_status st then (False, c1)
          else if st \<noteq> 200 then (False, c1)
          else
            (case send (HeadlinePost current_headline profile_id) c1 of
               (Inl e, c2) \<Rightarrow> (False, c2)
             | (Inr (st', body'), c2) \<Rightarrow>
                 if raise_for_status st' then (False, c2) else (st' = 200, c2)))"

text \<open>\<^verbatim>\<open>refresh_resume_headline\<close>: everything before the \<^verbatim>\<open>try\<close> is unguarded.\<close>

definition refresh_resume_headline :: "client \<Rightarrow> (exn + bool) \<times> client" where
  "refresh_resume_headline c =
     (case get_profile c of
        (Inl e, c1) \<Rightarrow> (Inl e, c1)
      | (Inr profile_data, c1) \<Rightarrow>
          (case py_get profile_data ''profile'' (JList []) of
             Inl e \<Rightarrow> (Inl e, c1)
           | Inr profile_list \<Rightarrow>
               if \<not> py_truthy profile_list then (Inr False, c1)
               else
                 (case py_index0 profile_list of
                    Inl e \<Rightarrow> (Inl e, c1)
                  | Inr profile \<Rightarrow>
                      (case py_get profile ''profileId'' JNull of
                         Inl e \<Rightarrow> (Inl e, c1)
                       | Inr profile_id \<Rightarrow>
                           (case py_get profile ''resumeHeadline'' JNull of
                              Inl e \<Rightarrow> (Inl e, c1)
                            | Inr current_headline \<Rightarrow>
                                if \<not> py_truthy profile_id then (Inr False, c1)
                                else if \<not> py_truthy current_headline then (Inr False, c1)
                                else
                                  (case current_headline of
                                     JStr h \<Rightarrow>
                                       (case headline_try (rstrip_dot h @ ''.'') h profile_id c1 of
                                          (b, c2) \<Rightarrow> (Inr b, c2))
                                   | _ \<Rightarrow> (Inl AttributeError, c1)))))))"

section \<open>Construction and the command line\<close>

text \<open>What the process finds: the two environment variables (after \<^verbatim>\<open>load_dotenv\<close>),
  the cookie file, the clock, the server's script and what opening the file to
  upload meets.\<close>

record environment =
  env_username :: "string option"
  env_password :: "string option"
  disk :: file_state
  time_now :: int
  replies :: "reply list"
  upload_file :: local_file

text \<open>\<^verbatim>\<open>x or os.getenv(...)\<close> on optional strings: \<open>None\<close> and the empty string are
  false.\<close>

definition given :: "string option \<Rightarrow> bool" where
  "given x = (case x of None \<Rightarrow> False | Some s \<Rightarrow> s \<noteq> [])"

definition py_or :: "string option \<Rightarrow> string option \<Rightarrow> string option" where
  "py_or a b = (if given a then a else b)"

text \<open>\<^verbatim>\<open>NaukriAPIClient.__init__\<close>.\<close>

definition NaukriAPIClient_init ::
  "string option \<Rightarrow> string option \<Rightarrow> environment \<Rightarrow> exn + client" where
  "NaukriAPIClient_init user pass env =
     (let u = py_or user (env_username env);
          p = py_or pass (env_password env)
      in if \<not> given u then Inl MissingCredentials
         else if \<not> given p then Inl MissingCredentials
         else
           Inr (load_cookies
             \<lparr>username = (case u of Some s \<Rightarrow> s | None \<Rightarrow> []),
              password = (case p of Some s \<Rightarrow> s | None \<Rightarrow> []),
              jar = [], cookie_file = disk env, clock = time_now env,
              server = replies env, trace = []\<rparr>))"

text \<open>The script \<^verbatim>\<open>naukri_client.py\<close>: the parsed arguments, the construction, the
  login of an expired or empty session, then one action. The result is the exception
  that ends the process, if any, with the client as it is then.\<close>

record args =
  arg_user :: "string option"
  arg_password :: "string option"
  arg_upload :: "string option"
  arg_refresh :: bool

definition cli_main :: "args \<Rightarrow> environment \<Rightarrow> (exn + unit) \<times> client option" where
  "cli_main a env =
     (case NaukriAPIClient_init (arg_user a) (arg_password a) env of
        Inl e \<Rightarrow> (Inl e, None)
      | Inr c \<Rightarrow>
          (case check_expired c of
             (expired, c0) \<Rightarrow>
               (case (if expired \<or> jar_cookies (jar c0) = [] then login c0 else (Inr (), c0)) of
                  (Inl e, c1) \<Rightarrow> (Inl e, Some c1)
                | (Inr u, c1) \<Rightarrow>
                    if given (arg_upload a) then
                      (case upload_resume (case arg_upload a of Some f \<Rightarrow> f | None \<Rightarrow> [])
                              (upload_file env) c1 of
                         (Inl e, c2) \<Rightarrow> (Inl e, Some c2)
                       | (Inr success, c2) \<Rightarrow> (Inr (), Some c2))
                    else if arg_refresh a then
                      (case refresh_resume_headline c1 of
                         (Inl e, c2) \<Rightarrow> (Inl e, Some c2)
                       | (Inr b, c2) \<Rightarrow> (Inr (), Some c2))
                    else (Inr (), Some c1))))"

definition events :: "client option \<Rightarrow> event list" where
  "events oc = (case oc of None \<Rightarrow> [] | Some c \<Rightarrow> trace c)"

section \<open>Observing a run\<close>

text \<open>The status of the reply that the next request will receive, if there is one.\<close>

definition next_status :: "client \<Rightarrow> nat option" where
  "next_status c = (case server c of Reply st body # rs \<Rightarrow> Some st | _ \<Rightarrow> None)"

section \<open>Comparing cookies\<close>

text \<open>A cookie of the session and an entry of the cookie file as the tuple of name,
  value, domain and expiry (\<open>JNull\<close> where there is none), and the triple without
  the expiry.\<close>

definition cookie_tuple :: "cookie \<Rightarrow> json \<times> json \<times> json \<times> json" where
  "cookie_tuple k =
     (ck_name k, ck_value k, JStr (ck_domain k),
      (case ck_expires k of None \<Rightarrow> JNull | Some e \<Rightarrow> JInt e))"

definition entry_tuple :: "json \<Rightarrow> json \<times> json \<times> json \<times> json" where
  "entry_tuple e =
     (case e of
        JObj kvs \<Rightarrow>
          (case (map_of kvs ''name'', map_of kvs ''value'', map_of kvs ''domain'',
                 map_of kvs ''expiry'') of
             (Some n, Some v, Some d, Some x) \<Rightarrow> (n, v, d, x)
           | _ \<Rightarrow> (JNull, JNull, JNull, JNull))
      | _ \<Rightarrow> (JNull, JNull, JNull, JNull))"

definition triple :: "json \<times> json \<times> json \<times> json \<Rightarrow> json \<times> json \<times> json" where
  "triple t = (case t of (n, v, d, x) \<Rightarrow> (n, v, d))"

definition file_entries :: "file_state \<Rightarrow> json list" where
  "file_entries f = (case f of Content (JList es) \<Rightarrow> es | _ \<Rightarrow> [])"

text \<open>The cookies of a session that a save and a load can carry over: a value that is
  set (the value \<open>None\<close> on loading unsets a cookie), and that the jar stores as it is
  (it rewrites some quoted values). The name is one that can be a key of the jar, as
  the name of every cookie that a jar holds is.\<close>

definition roundtrip_safe :: "cookie \<Rightarrow> bool" where
  "roundtrip_safe k =
     (ck_value k \<noteq> JNull \<and> unquote_value (ck_value k) = ck_value k \<and>
      py_key (ck_name k) \<noteq> Inl TypeError)"

text \<open>What identifies a loaded cookie in the jar: its domain and the key of its name
  (the path of a loaded cookie is always \<open>/\<close>).\<close>

definition loaded_key :: "cookie \<Rightarrow> string \<times> (exn + json)" where
  "loaded_key k = (ck_domain k, py_key (ck_name k))"

text \<open>Saving the session and loading the file into the empty session of a new
  process.\<close>

definition save_then_load :: "client \<Rightarrow> client" where
  "save_then_load c = load_cookies ((save_cookies c)\<lparr>jar := []\<rparr>)"

section \<open>The jar as a map\<close>

text \<open>
  The cookie stored under a domain, a path and a name key, and the jars whose dicts
  have distinct keys: there the cookies of the jar are the range of this map. A
  cookie as a load stores it (path \<open>/\<close>, no expiry), under the key of its name.
\<close>

definition jar_map :: "jar \<Rightarrow> (string \<times> string \<times> json) \<rightharpoonup> cookie" where
  "jar_map J = (\<lambda>(d, p, k).
     case map_of J d of None \<Rightarrow> None
     | Some c2 \<Rightarrow> (case map_of c2 p of None \<Rightarrow> None | Some c3 \<Rightarrow> map_of c3 k))"

definition jar_wf :: "jar \<Rightarrow> bool" where
  "jar_wf J = (distinct (map fst J) \<and>
     (\<forall>d c2. map_of J d = Some c2 \<longrightarrow> distinct (map fst c2) \<and>
        (\<forall>p c3. map_of c2 p = Some c3 \<longrightarrow> distinct (map fst c3))))"

definition jar_put :: "string \<Rightarrow> string \<Rightarrow> json \<Rightarrow> cookie \<Rightarrow> jar \<Rightarrow> jar" where
  "jar_put d p k c J =
     AList.update d (AList.update p (AList.update k c (dict_get (dict_get J d) p)) (dict_get J d)) J"

definition key_of :: "cookie \<Rightarrow> json" where
  "key_of k = (case py_key (ck_name k) of Inr key \<Rightarrow> key | Inl e \<Rightarrow> JNull)"

definition loaded :: "cookie \<Rightarrow> cookie" where
  "loaded k = k\<lparr>ck_path := ''/'', ck_expires := None\<rparr>"

definition put_loaded :: "cookie \<Rightarrow> jar \<Rightarrow> jar" where
  "put_loaded k J = jar_put (ck_domain k) ''/'' (key_of k) (loaded k) J"

definition loaded_kv :: "cookie \<Rightarrow> (string \<times> string \<times> json) \<times> cookie" where
  "loaded_kv k = ((ck_domain k, ''/'', key_of k), loaded k)"

section \<open>What a request and a login change\<close>

lemma send_fields:
  "trace (snd (send rq c)) = trace c @ [Sent rq]"
  "cookie_file (snd (send rq c)) = cookie_file c"
  "jar (snd (send rq c)) = jar c"
  "clock (snd (send rq c)) = clock c"
  "username (snd (send rq c)) = username c"
  "password (snd (send rq c)) = password c"
  "server (snd (send rq c)) = tl (server c)"
  by (auto simp: send_def Let_def split: list.splits reply.splits)

lemma send_reply:
  "server c = Reply st body # rs \<Longrightarrow> fst (send rq c) = Inr (st, body)"
  by (simp add: send_def)

lemma login_fields:
  "trace (snd (login c)) = trace c @ [Sent (LoginPost (username c) (password c))]"
  "clock (snd (login c)) = clock c"
  "username (snd (login c)) = username c"
  "password (snd (login c)) = password c"
  "server (snd (login c)) = tl (server c)"
  using send_fields [of "LoginPost (username c) (password c)" c]
  by (auto simp: login_def save_cookies_def split: prod.splits sum.splits option.splits bool.splits)

lemma load_cookies_fields:
  "username (load_cookies c) = username c"
  "password (load_cookies c) = password c"
  "trace (load_cookies c) = trace c"
  "cookie_file (load_cookies c) = cookie_file c"
  "clock (load_cookies c) = clock c"
  "server (load_cookies c) = server c"
  by (auto simp: load_cookies_def split: file_state.splits)

lemma send_cases:
  "send rq c =
     (case server c of
        Reply st body # rs \<Rightarrow> (Inr (st, body), c\<lparr>trace := trace c @ [Sent rq], server := rs\<rparr>)
      | _ \<Rightarrow> (Inl ConnectionError, c\<lparr>trace := trace c @ [Sent rq], server := tl (server c)\<rparr>))"
  by (simp add: send_def Let_def split: list.splits reply.splits)

lemma update_resume_result:
  "update_resume k pid c =
     (next_status c = Some 200, c\<lparr>trace := trace c @ [Sent (ResumePost k pid)], server := tl (server c)\<rparr>)"
  by (auto simp: update_resume_def send_cases next_status_def raise_for_status_def
        split: list.splits reply.splits)

lemma get_profile_try_401:
  assumes "server c = Reply 401 body # rs"
  shows "get_profile_try c =
     (case login (snd (send ProfileGet c)) of
        (Inl e, c2) \<Rightarrow> (JNull, c2)
      | (Inr u, c2) \<Rightarrow>
          (case send ProfileGet c2 of
             (Inl e, c3) \<Rightarrow> (JNull, c3)
           | (Inr (st', body'), c3) \<Rightarrow> (profile_result st' body', c3)))"
  using assms by (simp add: get_profile_try_def send_cases)

lemma rstrip_dot_no_dot: "h \<noteq> [] \<Longrightarrow> last h \<noteq> CHR ''.'' \<Longrightarrow> rstrip_dot h = h"
proof -
  assume "h \<noteq> []" and l: "last h \<noteq> CHR ''.''"
  then obtain x xs where r: "rev h = x # xs" by (cases "rev h") auto
  then have "h = rev xs @ [x]" by (metis rev.simps(2) rev_rev_ident)
  with l have "x \<noteq> CHR ''.''" by simp
  with r show ?thesis by (simp add: rstrip_dot_def)
qed

lemma headline_try_result:
  "headline_try hl cur pid c =
     (if next_status c = Some 200
      then (next_status (c\<lparr>server := tl (server c)\<rparr>) = Some 200,
            c\<lparr>trace := trace c @ [Sent (HeadlinePost hl pid), Sent (HeadlinePost cur pid)],
              server := tl (tl (server c))\<rparr>)
      else (False, c\<lparr>trace := trace c @ [Sent (HeadlinePost hl pid)], server := tl (server c)\<rparr>))"
  by (auto simp: headline_try_def send_cases next_status_def raise_for_status_def
        split: list.splits reply.splits)

lemma send_prefix: "prefix (trace c) (trace (snd (send rq c)))"
  by (simp add: send_fields)

lemma login_prefix: "prefix (trace c) (trace (snd (login c)))"
  by (simp add: login_fields)

lemma get_profile_try_prefix: "prefix (trace c) (trace (snd (get_profile_try c)))"
proof -
  have a: "prefix (trace c) (trace (snd (send ProfileGet c)))" by (rule send_prefix)
  have b: "prefix (trace (snd (send ProfileGet c))) (trace (snd (login (snd (send ProfileGet c)))))"
    by (rule login_prefix)
  have d: "prefix (trace (snd (login (snd (send ProfileGet c)))))
             (trace (snd (send ProfileGet (snd (login (snd (send ProfileGet c)))))))"
    by (rule send_prefix)
  from a b d have e: "prefix (trace c) (trace (snd (login (snd (send ProfileGet c)))))"
    "prefix (trace c) (trace (snd (send ProfileGet (snd (login (snd (send ProfileGet c)))))))"
    by (meson prefix_order.trans)+
  show ?thesis
    unfolding get_profile_try_def using a e
    by (auto split: prod.splits sum.splits)
qed

lemma get_profile_trace:
  "\<exists>evs. trace (snd (get_profile c)) = trace c @ ExpiryCheck # evs \<and>
     (is_cookie_expired (cookie_file c) (clock c) \<longrightarrow>
        (\<exists>evs'. evs = Sent (LoginPost (username c) (password c)) # evs'))"
proof -
  let ?c0 = "c\<lparr>trace := trace c @ [ExpiryCheck]\<rparr>"
  show ?thesis
  proof (cases "is_cookie_expired (cookie_file c) (clock c)")
    case True
    have l: "trace (snd (login ?c0)) = trace c @ [ExpiryCheck, Sent (LoginPost (username c) (password c))]"
      by (simp add: login_fields)
    show ?thesis
    proof (cases "login ?c0")
      case (Pair r c1)
      with l have t1: "trace c1 = trace c @ [ExpiryCheck, Sent (LoginPost (username c) (password c))]"
        by simp
      show ?thesis
      proof (cases r)
        case (Inl e)
        with Pair True t1 show ?thesis by (simp add: get_profile_def check_expired_def)
      next
        case (Inr u)
        from get_profile_try_prefix [of c1] obtain zs where
          "trace (snd (get_profile_try c1)) = trace c1 @ zs" by (auto simp: prefix_def)
        with Inr Pair True t1 show ?thesis
          by (cases "get_profile_try c1") (simp add: get_profile_def check_expired_def)
      qed
    qed
  next
    case False
    from get_profile_try_prefix [of ?c0] obtain zs where
      "trace (snd (get_profile_try ?c0)) = trace ?c0 @ zs" by (auto simp: prefix_def)
    with False show ?thesis
      by (cases "get_profile_try ?c0") (simp add: get_profile_def check_expired_def)
  qed
qed

lemma headline_try_prefix:
  "headline_try hl cur pid c = (b, c') \<Longrightarrow> prefix (trace c) (trace c')"
  by (auto simp: headline_try_result split: if_splits)

lemma refresh_after_profile:
  "prefix (trace (snd (get_profile c))) (trace (snd (refresh_resume_headline c)))"
  by (auto simp: refresh_resume_headline_def split: prod.splits sum.splits json.splits
        intro: headline_try_prefix)

lemma refresh_trace:
  "\<exists>evs. trace (snd (refresh_resume_headline c)) = trace c @ ExpiryCheck # evs \<and>
     (is_cookie_expired (cookie_file c) (clock c) \<longrightarrow>
        (\<exists>evs'. evs = Sent (LoginPost (username c) (password c)) # evs'))"
proof -
  from get_profile_trace [of c] obtain evs where
    g: "trace (snd (get_profile c)) = trace c @ ExpiryCheck # evs"
    and e: "is_cookie_expired (cookie_file c) (clock c) \<longrightarrow>
        (\<exists>evs'. evs = Sent (LoginPost (username c) (password c)) # evs')"
    by blast
  from refresh_after_profile [of c] obtain zs where
    "trace (snd (refresh_resume_headline c)) = trace (snd (get_profile c)) @ zs"
    by (auto simp: prefix_def)
  with g have "trace (snd (refresh_resume_headline c)) = trace c @ ExpiryCheck # (evs @ zs)"
    by simp
  moreover from e have "is_cookie_expired (cookie_file c) (clock c) \<longrightarrow>
        (\<exists>evs'. evs @ zs = Sent (LoginPost (username c) (password c)) # evs')"
    by auto
  ultimately show ?thesis by blast
qed


lemma get_profile_prefix: "prefix (trace c) (trace (snd (get_profile c)))"
  using get_profile_trace [of c] by (auto simp: prefix_def)

lemma refresh_prefix: "prefix (trace c) (trace (snd (refresh_resume_headline c)))"
  using refresh_trace [of c] by (auto simp: prefix_def)

lemma upload_try_prefix: "prefix (trace c) (trace (snd (upload_try f opened c)))"
proof (cases opened)
  case Readable
  let ?c1 = "snd (send (UploadPost f) c)"
  have a: "prefix (trace c) (trace ?c1)" by (rule send_prefix)
  have b: "prefix (trace ?c1) (trace (snd (get_profile ?c1)))" by (rule get_profile_prefix)
  from a b have ab: "prefix (trace c) (trace (snd (get_profile ?c1)))"
    by (rule prefix_order.trans)
  have d: "prefix (trace c) (trace c3)"
    if "get_profile ?c1 = (r, c2)" "update_resume k pid c2 = (b', c3)" for r c2 k pid b' c3
  proof -
    from that(2) have "prefix (trace c2) (trace c3)" by (auto simp: update_resume_result)
    with ab that(1) show ?thesis by (auto intro: prefix_order.trans)
  qed
  from Readable a ab show ?thesis
    by (auto simp: upload_try_def split: prod.splits sum.splits option.splits json.splits
          list.splits intro: d)
qed (simp_all add: upload_try_def)

lemma upload_resume_prefix: "prefix (trace c) (trace (snd (upload_resume f opened c)))"
  using upload_try_prefix [of c f opened]
  by (auto simp: upload_resume_def split: prod.splits sum.splits)

lemmas run_defs = send_def login_def raise_for_status_def set_cookies_from_json_def
  save_cookies_def jar_cookies_def get_profile_def get_profile_try_def check_expired_def
  profile_result_def update_resume_def upload_resume_def upload_try_def profile_id_of_def
  refresh_resume_headline_def headline_try_def rstrip_dot_def

section \<open>Properties of the expiry check\<close>

lemma expired_loop_past:
  "list_ex (expiry_past now) cs \<Longrightarrow> expired_loop cs now \<noteq> Inr False"
proof (induction cs)
  case Nil
  then show ?case by simp
next
  case (Cons c cs)
  show ?case
  proof (cases "expiry_past now c")
    case True
    then show ?thesis
      by (cases c)
        (auto simp: expiry_past_def split: option.splits json.splits sum.splits if_splits)
  next
    case False
    with Cons.prems have "list_ex (expiry_past now) cs" by simp
    then have "expired_loop cs now \<noteq> Inr False" by (rule Cons.IH)
    then show ?thesis
      by (auto split: sum.splits bool.splits)
  qed
qed

lemma expired_loop_future:
  "list_all (expiry_future_or_unset now) cs \<Longrightarrow> expired_loop cs now = Inr False"
proof (induction cs)
  case Nil
  then show ?case by simp
next
  case (Cons c cs)
  then have c: "expiry_future_or_unset now c" and IH: "expired_loop cs now = Inr False"
    by simp_all
  from c show ?case
    by (cases c)
      (auto simp: expiry_future_or_unset_def IH split: option.splits json.splits if_splits)
qed

text \<open>
  Claim C1, as the code has it. The check answers \<open>True\<close> when the file is absent, when
  it cannot be read or parsed, and when any cookie of the parsed list records an
  expiry in the past. It answers \<open>False\<close> when the file parses to a list of cookies
  whose expiries are all in the future or unset: the list may be empty, so a file
  with zero cookies is not expired.
\<close>

theorem is_cookie_expired_cases:
  "is_cookie_expired NoFile now \<and>
   is_cookie_expired Unreadable now \<and>
   (list_ex (expiry_past now) cs \<longrightarrow> is_cookie_expired (Content (JList cs)) now) \<and>
   (list_all (expiry_future_or_unset now) cs \<longrightarrow> \<not> is_cookie_expired (Content (JList cs)) now)"
proof -
  have past: "is_cookie_expired (Content (JList cs)) now" if "list_ex (expiry_past now) cs"
    using expired_loop_past [OF that] by (auto split: sum.splits)
  have future: "\<not> is_cookie_expired (Content (JList cs)) now"
    if "list_all (expiry_future_or_unset now) cs"
    using expired_loop_future [OF that] by simp
  from past future show ?thesis by simp
qed

theorem is_cookie_expired_cases_witness:
  "is_cookie_expired (Content (JList
      [JObj [(''name'', JStr ''sid''), (''expiry'', JInt 2000)],
       JObj [(''name'', JStr ''tok''), (''expiry'', JInt 900)]])) 1000 \<and>
   \<not> is_cookie_expired (Content (JList
      [JObj [(''name'', JStr ''sid''), (''expiry'', JInt 2000)],
       JObj [(''name'', JStr ''tok'')]])) 1000"
proof -
  let ?old = "[JObj [(''name'', JStr ''sid''), (''expiry'', JInt 2000)],
               JObj [(''name'', JStr ''tok''), (''expiry'', JInt 900)]]"
  let ?new = "[JObj [(''name'', JStr ''sid''), (''expiry'', JInt 2000)],
               JObj [(''name'', JStr ''tok'')]]"
  have a: "list_ex (expiry_past 1000) ?old"
    by (simp add: expiry_past_def)
  have b: "list_all (expiry_future_or_unset 1000) ?new"
    by (simp add: expiry_future_or_unset_def)
  from a is_cookie_expired_cases [of 1000 ?old] have "is_cookie_expired (Content (JList ?old)) 1000"
    by blast
  moreover from b is_cookie_expired_cases [of 1000 ?new]
  have "\<not> is_cookie_expired (Content (JList ?new)) 1000"
    by blast
  ultimately show ?thesis by blast
qed

text \<open>The claim as written fails: a cookie file that holds zero cookies is reported
  as not expired.\<close>

theorem is_cookie_expired_empty_counterexample:
  "\<not> is_cookie_expired (Content (JList [])) 1700000000"
  by simp

section \<open>The answer to a 401\<close>

text \<open>
  Claim C2, as the code has it. When the profile request of \<^verbatim>\<open>get_profile\<close> is
  answered with 401, the \<^verbatim>\<open>try\<close> block calls \<^verbatim>\<open>login\<close> once. If that login raises,
  the result is \<open>None\<close> and nothing more is sent. If it returns, the profile request
  is sent once more and its response decides: a second 401 gives \<open>None\<close>, with no
  further login and no further request. The requests of \<^verbatim>\<open>update_resume\<close>, of
  \<^verbatim>\<open>refresh_resume_headline\<close> and of \<^verbatim>\<open>upload_resume\<close> have no such path: a 401
  makes \<^verbatim>\<open>raise_for_status\<close> raise, and the operation reports failure after that one
  request, with no login and no retry.
\<close>

theorem unauthorized_retry:
  "server c = Reply 401 body # rs \<longrightarrow>
     (let c1 = snd (send ProfileGet c);
          relogin = [Sent ProfileGet, Sent (LoginPost (username c) (password c))]
      in (case login c1 of
            (Inl e, c2) \<Rightarrow> get_profile_try c = (JNull, c2) \<and> trace c2 = trace c @ relogin
          | (Inr u, c2) \<Rightarrow>
              trace (snd (get_profile_try c)) = trace c @ relogin @ [Sent ProfileGet] \<and>
              server (snd (get_profile_try c)) = tl (server c2) \<and>
              (next_status c2 = Some 401 \<longrightarrow> fst (get_profile_try c) = JNull))) \<and>
     update_resume k pid c =
       (False, c\<lparr>trace := trace c @ [Sent (ResumePost k pid)], server := rs\<rparr>) \<and>
     headline_try hl cur pid c =
       (False, c\<lparr>trace := trace c @ [Sent (HeadlinePost hl pid)], server := rs\<rparr>) \<and>
     upload_resume f Readable c =
       (Inr JNull, c\<lparr>trace := trace c @ [Sent (UploadPost f)], server := rs\<rparr>)"
proof
  assume s: "server c = Reply 401 body # rs"
  let ?c1 = "snd (send ProfileGet c)"
  have c1: "trace ?c1 = trace c @ [Sent ProfileGet]" "username ?c1 = username c"
    "password ?c1 = password c"
    by (simp_all add: send_fields)
  have lt: "trace (snd (login ?c1)) =
      trace c @ [Sent ProfileGet, Sent (LoginPost (username c) (password c))]"
    by (simp add: login_fields c1)
  have A: "case login ?c1 of
            (Inl e, c2) \<Rightarrow> get_profile_try c = (JNull, c2) \<and>
               trace c2 = trace c @ [Sent ProfileGet, Sent (LoginPost (username c) (password c))]
          | (Inr u, c2) \<Rightarrow>
              trace (snd (get_profile_try c)) =
                trace c @ [Sent ProfileGet, Sent (LoginPost (username c) (password c))] @ [Sent ProfileGet] \<and>
              server (snd (get_profile_try c)) = tl (server c2) \<and>
              (next_status c2 = Some 401 \<longrightarrow> fst (get_profile_try c) = JNull)"
  proof (cases "login ?c1")
    case (Pair r c2)
    with lt have t2: "trace c2 = trace c @ [Sent ProfileGet, Sent (LoginPost (username c) (password c))]"
      by simp
    show ?thesis
    proof (cases r)
      case (Inl e)
      with Pair t2 show ?thesis by (simp add: get_profile_try_401 [OF s])
    next
      case (Inr u)
      with Pair t2 show ?thesis
        by (auto simp: get_profile_try_401 [OF s] send_cases next_status_def profile_result_def
              split: list.splits reply.splits)
    qed
  qed
  have B: "update_resume k pid c =
       (False, c\<lparr>trace := trace c @ [Sent (ResumePost k pid)], server := rs\<rparr>)"
    using s by (simp add: update_resume_result next_status_def)
  have C: "headline_try hl cur pid c =
       (False, c\<lparr>trace := trace c @ [Sent (HeadlinePost hl pid)], server := rs\<rparr>)"
    using s by (simp add: headline_try_def send_cases raise_for_status_def)
  have D: "upload_resume f Readable c =
       (Inr JNull, c\<lparr>trace := trace c @ [Sent (UploadPost f)], server := rs\<rparr>)"
    using s by (simp add: upload_resume_def upload_try_def send_cases raise_for_status_def)
  from A B C D show "(let c1 = snd (send ProfileGet c);
          relogin = [Sent ProfileGet, Sent (LoginPost (username c) (password c))]
      in (case login c1 of
            (Inl e, c2) \<Rightarrow> get_profile_try c = (JNull, c2) \<and> trace c2 = trace c @ relogin
          | (Inr u, c2) \<Rightarrow>
              trace (snd (get_profile_try c)) = trace c @ relogin @ [Sent ProfileGet] \<and>
              server (snd (get_profile_try c)) = tl (server c2) \<and>
              (next_status c2 = Some 401 \<longrightarrow> fst (get_profile_try c) = JNull))) \<and>
     update_resume k pid c =
       (False, c\<lparr>trace := trace c @ [Sent (ResumePost k pid)], server := rs\<rparr>) \<and>
     headline_try hl cur pid c =
       (False, c\<lparr>trace := trace c @ [Sent (HeadlinePost hl pid)], server := rs\<rparr>) \<and>
     upload_resume f Readable c =
       (Inr JNull, c\<lparr>trace := trace c @ [Sent (UploadPost f)], server := rs\<rparr>)"
    by (simp add: Let_def)
qed

theorem unauthorized_retry_witness:
  "get_profile_try \<lparr>username = ''u'', password = ''p'', jar = [], cookie_file = NoFile,
      clock = 1700000000,
      server = [Reply 401 None, Reply 200 (Some (JObj [(''cookies'', JList [])])),
                Reply 401 None, Reply 200 (Some (JObj []))],
      trace = []\<rparr> =
   (JNull,
    \<lparr>username = ''u'', password = ''p'', jar = [], cookie_file = Content (JList []),
     clock = 1700000000, server = [Reply 200 (Some (JObj []))],
     trace = [Sent ProfileGet, Sent (LoginPost ''u'' ''p''), Sent ProfileGet]\<rparr>)"
proof -
  let ?rs = "[Reply 200 (Some (JObj [(''cookies'', JList [])])),
              Reply 401 None, Reply 200 (Some (JObj []))]"
  let ?c = "\<lparr>username = ''u'', password = ''p'', jar = [], cookie_file = NoFile,
      clock = 1700000000, server = Reply 401 None # ?rs, trace = []\<rparr>"
  let ?c2 = "\<lparr>username = ''u'', password = ''p'', jar = [], cookie_file = Content (JList []),
      clock = 1700000000, server = [Reply 401 None, Reply 200 (Some (JObj []))],
      trace = [Sent ProfileGet, Sent (LoginPost ''u'' ''p'')]\<rparr>"
  have l: "login (snd (send ProfileGet ?c)) = (Inr (), ?c2)"
    by (simp add: run_defs)
  have n: "next_status ?c2 = Some 401" by (simp add: next_status_def)
  from unauthorized_retry [of ?c None ?rs "''k''" JNull "''h''" "''h''" "''f''"] l n
  have "fst (get_profile_try ?c) = JNull"
    and "trace (snd (get_profile_try ?c)) =
         [Sent ProfileGet, Sent (LoginPost ''u'' ''p''), Sent ProfileGet]"
    and "server (snd (get_profile_try ?c)) = [Reply 200 (Some (JObj []))]"
    by (simp_all add: Let_def)
  moreover have "get_profile_try ?c = (fst (get_profile_try ?c),
      \<lparr>username = ''u'', password = ''p'', jar = [], cookie_file = Content (JList []),
       clock = 1700000000, server = server (snd (get_profile_try ?c)),
       trace = trace (snd (get_profile_try ?c))\<rparr>)"
    by (simp add: run_defs)
  ultimately show ?thesis by simp
qed

text \<open>The claim as written fails for \<^verbatim>\<open>update_resume\<close>: its request is answered
  with 401 and a 200 waits for a retry, but the operation returns \<open>False\<close> after the
  one request, without a login.\<close>

theorem update_resume_no_relogin_counterexample:
  "update_resume ''UR54EQmIiGvBMt'' (JStr ''12345'')
     \<lparr>username = ''u'', password = ''p'', jar = [], cookie_file = Content (JList [JObj [(''name'', JStr ''sid''), (''value'', JStr ''abc''),
        (''domain'', JStr ''.naukri.com''), (''expiry'', JInt 1700003600)]]),
      clock = 1700000000, server = [Reply 401 None, Reply 200 None], trace = []\<rparr> =
   (False,
    \<lparr>username = ''u'', password = ''p'', jar = [], cookie_file = Content (JList [JObj [(''name'', JStr ''sid''), (''value'', JStr ''abc''),
        (''domain'', JStr ''.naukri.com''), (''expiry'', JInt 1700003600)]]),
     clock = 1700000000, server = [Reply 200 None],
     trace = [Sent (ResumePost ''UR54EQmIiGvBMt'' (JStr ''12345''))]\<rparr>)"
  by (simp add: run_defs)

section \<open>Saving and loading the cookies\<close>

lemma jar_map_Some:
  "jar_map J (d, p, k) = Some x \<longleftrightarrow>
     (\<exists>c2 c3. map_of J d = Some c2 \<and> map_of c2 p = Some c3 \<and> map_of c3 k = Some x)"
  by (auto simp: jar_map_def split: option.splits)

lemma jar_cookies_ran:
  assumes "jar_wf J"
  shows "set (jar_cookies J) = ran (jar_map J)"
proof (rule set_eqI)
  fix x
  have "x \<in> set (jar_cookies J) \<longleftrightarrow>
        (\<exists>d c2 p c3 k. (d, c2) \<in> set J \<and> (p, c3) \<in> set c2 \<and> (k, x) \<in> set c3)"
  proof
    assume "x \<in> set (jar_cookies J)"
    then obtain dc pc kc where "dc \<in> set J" "pc \<in> set (snd dc)" "kc \<in> set (snd pc)" "x = snd kc"
      by (auto simp: jar_cookies_def)
    then have "(fst dc, snd dc) \<in> set J \<and> (fst pc, snd pc) \<in> set (snd dc) \<and> (fst kc, x) \<in> set (snd pc)"
      by simp
    then show "\<exists>d c2 p c3 k. (d, c2) \<in> set J \<and> (p, c3) \<in> set c2 \<and> (k, x) \<in> set c3"
      by blast
  next
    assume "\<exists>d c2 p c3 k. (d, c2) \<in> set J \<and> (p, c3) \<in> set c2 \<and> (k, x) \<in> set c3"
    then show "x \<in> set (jar_cookies J)"
      by (force simp: jar_cookies_def)
  qed
  also have "\<dots> \<longleftrightarrow> (\<exists>d c2 p c3 k. map_of J d = Some c2 \<and> map_of c2 p = Some c3 \<and> map_of c3 k = Some x)"
  proof
    assume "\<exists>d c2 p c3 k. (d, c2) \<in> set J \<and> (p, c3) \<in> set c2 \<and> (k, x) \<in> set c3"
    then obtain d c2 p c3 k where m: "(d, c2) \<in> set J" "(p, c3) \<in> set c2" "(k, x) \<in> set c3"
      by blast
    from assms m(1) have 1: "map_of J d = Some c2" by (simp add: jar_wf_def)
    with assms have "distinct (map fst c2)" unfolding jar_wf_def by blast
    with m(2) have 2: "map_of c2 p = Some c3" by simp
    with assms 1 have "distinct (map fst c3)" unfolding jar_wf_def by blast
    with m(3) have "map_of c3 k = Some x" by simp
    with 1 2 show "\<exists>d c2 p c3 k. map_of J d = Some c2 \<and> map_of c2 p = Some c3 \<and> map_of c3 k = Some x"
      by blast
  next
    assume "\<exists>d c2 p c3 k. map_of J d = Some c2 \<and> map_of c2 p = Some c3 \<and> map_of c3 k = Some x"
    then show "\<exists>d c2 p c3 k. (d, c2) \<in> set J \<and> (p, c3) \<in> set c2 \<and> (k, x) \<in> set c3"
      by (meson map_of_SomeD)
  qed
  also have "\<dots> \<longleftrightarrow> (\<exists>d p k. jar_map J (d, p, k) = Some x)"
    unfolding jar_map_Some by blast
  also have "\<dots> \<longleftrightarrow> x \<in> ran (jar_map J)"
    by (simp add: ran_def)
  finally show "x \<in> set (jar_cookies J) \<longleftrightarrow> x \<in> ran (jar_map J)" .
qed

lemma dict_get_update:
  "dict_get (AList.update k v al) k' = (if k' = k then v else dict_get al k')"
  by (simp add: dict_get_def update_conv')

lemma jar_map_dict_get: "jar_map J (d, p, k) = map_of (dict_get (dict_get J d) p) k"
  by (simp add: jar_map_def dict_get_def split: option.splits)

lemma jar_map_put: "jar_map (jar_put d p k c J) = (jar_map J)((d, p, k) \<mapsto> c)"
proof (rule ext)
  fix key :: "string \<times> string \<times> json"
  obtain d' p' k' where key: "key = (d', p', k')" by (cases key)
  show "jar_map (jar_put d p k c J) key = ((jar_map J)((d, p, k) \<mapsto> c)) key"
    unfolding key jar_map_dict_get
    by (simp add: jar_put_def dict_get_update update_conv' jar_map_dict_get)
qed

lemma jar_wf_put:
  assumes "jar_wf J"
  shows "jar_wf (jar_put d p k c J)"
proof -
  let ?c2 = "dict_get J d"
  let ?c3 = "dict_get ?c2 p"
  from assms have dJ: "distinct (map fst J)"
    and d2: "\<And>d' c2. map_of J d' = Some c2 \<Longrightarrow> distinct (map fst c2)"
    and d3: "\<And>d' c2 p' c3. map_of J d' = Some c2 \<Longrightarrow> map_of c2 p' = Some c3 \<Longrightarrow> distinct (map fst c3)"
    unfolding jar_wf_def by blast+
  have c2: "distinct (map fst ?c2)"
    using d2 by (auto simp: dict_get_def split: option.splits)
  have c2in: "distinct (map fst x)" if "map_of ?c2 p' = Some x" for p' x
    using that d3 by (auto simp: dict_get_def split: option.splits)
  have c3: "distinct (map fst ?c3)"
    using c2in by (auto simp: dict_get_def split: option.splits)
  show ?thesis
    unfolding jar_wf_def jar_put_def
    using dJ d2 d3 c2 c3 c2in
    by (auto simp: update_conv' distinct_update split: if_splits)
qed

lemma jar_wf_empty: "jar_wf []"
  by (simp add: jar_wf_def)

lemma py_key_safe: "py_key n \<noteq> Inl TypeError \<Longrightarrow> \<exists>key. py_key n = Inr key"
  by (cases n) simp_all

lemma load_step:
  assumes "roundtrip_safe k"
  shows "set_cookies_loop (saved_entry now k # es) J = set_cookies_loop es (put_loaded k J)"
proof -
  from assms obtain key where key: "py_key (ck_name k) = Inr key"
    using py_key_safe by (auto simp: roundtrip_safe_def)
  from assms have v: "ck_value k \<noteq> JNull" "unquote_value (ck_value k) = ck_value k"
    by (simp_all add: roundtrip_safe_def)
  have c: "\<lparr>ck_name = ck_name k, ck_value = ck_value k, ck_domain = ck_domain k,
            ck_path = ''/'', ck_expires = None\<rparr> = loaded k"
    by (simp add: loaded_def)
  have "jar_set (ck_name k) (ck_value k) (JStr (ck_domain k)) J = (Inr (), put_loaded k J)"
    using v key
    by (simp add: jar_set_def c jar_set_cookie_def put_loaded_def jar_put_def key_of_def
          loaded_def Let_def)
  then show ?thesis
    by (simp add: saved_entry_def)
qed

lemma load_all:
  "list_all roundtrip_safe L \<Longrightarrow>
   set_cookies_loop (map (saved_entry now) L) J = (Inr (), fold put_loaded L J)"
  by (induction L arbitrary: J) (simp_all add: load_step del: set_cookies_loop.simps(2))

lemma jar_wf_fold: "jar_wf J \<Longrightarrow> jar_wf (fold put_loaded L J)"
  by (induction L arbitrary: J) (simp_all add: put_loaded_def jar_wf_put)

lemma jar_map_empty: "jar_map [] = Map.empty"
  by (rule ext) (simp add: jar_map_def split: prod.splits)

lemma jar_map_fold:
  "jar_map (fold put_loaded L J) = jar_map J ++ map_of (rev (map loaded_kv L))"
proof (induction L arbitrary: J)
  case Nil
  show ?case by simp
next
  case (Cons k L)
  have p: "jar_map (put_loaded k J) = (jar_map J)(fst (loaded_kv k) \<mapsto> snd (loaded_kv k))"
    by (simp add: put_loaded_def jar_map_put loaded_kv_def)
  have "jar_map (fold put_loaded (k # L) J) =
        jar_map (put_loaded k J) ++ map_of (rev (map loaded_kv L))"
    by (simp add: Cons.IH)
  also have "\<dots> =
        (jar_map J)(fst (loaded_kv k) \<mapsto> snd (loaded_kv k)) ++ map_of (rev (map loaded_kv L))"
    by (simp only: p)
  also have "\<dots> = jar_map J ++ map_of (rev (map loaded_kv (k # L)))"
    by (rule ext) (simp add: map_add_def split: option.splits)
  finally show ?case .
qed

lemma loaded_cookies:
  assumes safe: "list_all roundtrip_safe L" and dist: "distinct (map loaded_key L)"
  shows "set (jar_cookies (fold put_loaded L [])) = loaded ` set L"
proof -
  have inj: "fst (loaded_kv a) = fst (loaded_kv b) \<Longrightarrow> loaded_key a = loaded_key b"
    if "a \<in> set L" "b \<in> set L" for a b
  proof -
    assume e: "fst (loaded_kv a) = fst (loaded_kv b)"
    from safe that obtain ka kb where "py_key (ck_name a) = Inr ka" "py_key (ck_name b) = Inr kb"
      using py_key_safe by (fastforce simp: list_all_iff roundtrip_safe_def)
    with e show ?thesis
      by (simp add: loaded_kv_def loaded_key_def key_of_def)
  qed
  have "distinct (map fst (map loaded_kv L))"
    using dist inj
  proof (induction L)
    case Nil
    show ?case by simp
  next
    case (Cons a L)
    then have "distinct (map fst (map loaded_kv L))" by simp
    moreover have "fst (loaded_kv a) \<notin> set (map fst (map loaded_kv L))"
    proof
      assume "fst (loaded_kv a) \<in> set (map fst (map loaded_kv L))"
      then obtain b where b: "b \<in> set L" "fst (loaded_kv a) = fst (loaded_kv b)" by auto
      with Cons.prems(2) [of a b] have "loaded_key a = loaded_key b" by simp
      with b(1) Cons.prems(1) show False by auto
    qed
    ultimately show ?case by simp
  qed
  then have d: "distinct (map fst (rev (map loaded_kv L)))"
    by (simp add: rev_map [symmetric])
  have "set (jar_cookies (fold put_loaded L [])) = ran (jar_map (fold put_loaded L []))"
    by (rule jar_cookies_ran) (simp add: jar_wf_fold jar_wf_empty)
  also have "\<dots> = ran (map_of (rev (map loaded_kv L)))"
    by (simp add: jar_map_fold jar_map_empty)
  also from d have "\<dots> = snd ` set (rev (map loaded_kv L))"
    by (rule ran_distinct)
  also have "\<dots> = loaded ` set L"
    by (force simp: loaded_kv_def)
  finally show ?thesis .
qed

lemma save_then_load_jar:
  "list_all roundtrip_safe (jar_cookies (jar c)) \<Longrightarrow>
   jar (save_then_load c) = fold put_loaded (jar_cookies (jar c)) []"
  by (simp add: save_then_load_def load_cookies_def save_cookies_def set_cookies_from_json_def
        load_all)

lemma triple_loaded: "triple (cookie_tuple (loaded k)) = triple (cookie_tuple k)"
  by (simp add: triple_def cookie_tuple_def loaded_def)

lemma triple_saved: "triple (entry_tuple (saved_entry now k)) = triple (cookie_tuple k)"
  by (simp add: triple_def cookie_tuple_def entry_tuple_def saved_entry_def)

lemmas unset_defs = remove_cookie_by_name_def name_matches_def jar_clear_def

lemmas jar_defs = save_then_load_def load_cookies_def save_cookies_def set_cookies_from_json_def
  saved_entry_def jar_set_def jar_set_cookie_def dict_get_def jar_cookies_def cookie_tuple_def
  entry_tuple_def file_entries_def triple_def

text \<open>
  Claim C3, as the code has it. Let every cookie of the session be one that a save
  and a load can carry over, and let no two of them share domain and name. After a
  save and a load into the empty session of a new process, the session holds the
  same triples of name, value and domain, and the file holds these triples too. No
  loaded cookie has an expiry: a load reads the name, the value and the domain of
  an entry, whatever expiry the entry records.
\<close>

theorem save_load_roundtrip:
  "list_all roundtrip_safe (jar_cookies (jar c)) \<and>
   distinct (map loaded_key (jar_cookies (jar c))) \<longrightarrow>
     set (map (\<lambda>k. triple (cookie_tuple k)) (jar_cookies (jar (save_then_load c)))) =
       set (map (\<lambda>k. triple (cookie_tuple k)) (jar_cookies (jar c))) \<and>
     map (\<lambda>e. triple (entry_tuple e)) (file_entries (cookie_file (save_then_load c))) =
       map (\<lambda>k. triple (cookie_tuple k)) (jar_cookies (jar c)) \<and>
     list_all (\<lambda>k. ck_expires k = None) (jar_cookies (jar (save_then_load c)))"
proof
  let ?L = "jar_cookies (jar c)"
  let ?c' = "save_then_load c"
  assume h: "list_all roundtrip_safe ?L \<and> distinct (map loaded_key ?L)"
  then have j: "jar ?c' = fold put_loaded ?L []"
    by (simp add: save_then_load_jar)
  from h have s: "set (jar_cookies (jar ?c')) = loaded ` set ?L"
    unfolding j by (simp add: loaded_cookies)
  have f: "file_entries (cookie_file ?c') = map (saved_entry (clock c)) ?L"
    by (simp add: save_then_load_def load_cookies_fields save_cookies_def file_entries_def)
  have a: "set (map (\<lambda>k. triple (cookie_tuple k)) (jar_cookies (jar ?c'))) =
       set (map (\<lambda>k. triple (cookie_tuple k)) ?L)"
    by (simp add: s image_image triple_loaded)
  have b: "map (\<lambda>e. triple (entry_tuple e)) (file_entries (cookie_file ?c')) =
       map (\<lambda>k. triple (cookie_tuple k)) ?L"
    by (simp add: f triple_saved comp_def)
  have e: "list_all (\<lambda>k. ck_expires k = None) (jar_cookies (jar ?c'))"
    unfolding list_all_iff s by (simp add: loaded_def)
  from a b e show "set (map (\<lambda>k. triple (cookie_tuple k)) (jar_cookies (jar ?c'))) =
       set (map (\<lambda>k. triple (cookie_tuple k)) (jar_cookies (jar c))) \<and>
     map (\<lambda>e. triple (entry_tuple e)) (file_entries (cookie_file ?c')) =
       map (\<lambda>k. triple (cookie_tuple k)) (jar_cookies (jar c)) \<and>
     list_all (\<lambda>k. ck_expires k = None) (jar_cookies (jar ?c'))"
    by blast
qed

theorem save_load_roundtrip_witness:
  "set (map (\<lambda>k. triple (cookie_tuple k)) (jar_cookies (jar (save_then_load
      \<lparr>username = ''u'', password = ''p'',
       jar = [(''.naukri.com'', [(''/'', [
                (JStr ''sid'', \<lparr>ck_name = JStr ''sid'', ck_value = JStr ''abc'',
                   ck_domain = ''.naukri.com'', ck_path = ''/'', ck_expires = None\<rparr>),
                (JStr ''tok'', \<lparr>ck_name = JStr ''tok'', ck_value = JStr ''xyz'',
                   ck_domain = ''.naukri.com'', ck_path = ''/'', ck_expires = Some 2000000000\<rparr>)])])],
       cookie_file = NoFile, clock = 1700000000, server = [], trace = []\<rparr>)))) =
   {(JStr ''sid'', JStr ''abc'', JStr ''.naukri.com''),
    (JStr ''tok'', JStr ''xyz'', JStr ''.naukri.com'')}"
proof -
  let ?c = "\<lparr>username = ''u'', password = ''p'',
       jar = [(''.naukri.com'', [(''/'', [
                (JStr ''sid'', \<lparr>ck_name = JStr ''sid'', ck_value = JStr ''abc'',
                   ck_domain = ''.naukri.com'', ck_path = ''/'', ck_expires = None\<rparr>),
                (JStr ''tok'', \<lparr>ck_name = JStr ''tok'', ck_value = JStr ''xyz'',
                   ck_domain = ''.naukri.com'', ck_path = ''/'', ck_expires = Some 2000000000\<rparr>)])])],
       cookie_file = NoFile, clock = 1700000000, server = [], trace = []\<rparr>"
  have a: "list_all roundtrip_safe (jar_cookies (jar ?c))"
    by (simp add: jar_cookies_def roundtrip_safe_def)
  have b: "distinct (map loaded_key (jar_cookies (jar ?c)))"
    by (simp add: jar_cookies_def loaded_key_def)
  from save_load_roundtrip [of ?c] a b
  have "set (map (\<lambda>k. triple (cookie_tuple k)) (jar_cookies (jar (save_then_load ?c)))) =
       set (map (\<lambda>k. triple (cookie_tuple k)) (jar_cookies (jar ?c)))"
    by blast
  also have "\<dots> = {(JStr ''sid'', JStr ''abc'', JStr ''.naukri.com''),
    (JStr ''tok'', JStr ''xyz'', JStr ''.naukri.com'')}"
    by (simp add: jar_cookies_def triple_def cookie_tuple_def)
  finally show ?thesis .
qed

text \<open>
  The claim as written fails, in four ways. The expiry: the session holds a cookie
  without an expiry and one whose expiry is 2000000000; loaded again, both have no
  expiry, whatever the file records. The path: two cookies of one name and domain,
  under the paths \<open>/\<close> and \<open>/jobs\<close>, are both saved, and a load stores both
  under the path \<open>/\<close>, so one is left. The value \<open>None\<close>: the cookie is saved,
  and loading its entry unsets it. The quoted value: the cookie whose value is the
  five characters double quote, backslash, double quote, \<open>x\<close>, double quote is
  saved with that value and loaded with the backslash and the quote after it removed.
\<close>

theorem save_load_counterexample:
  "map cookie_tuple (jar_cookies (jar
      \<lparr>username = ''u'', password = ''p'',
       jar = [(''.naukri.com'', [(''/'', [
                (JStr ''sid'', \<lparr>ck_name = JStr ''sid'', ck_value = JStr ''abc'',
                   ck_domain = ''.naukri.com'', ck_path = ''/'', ck_expires = None\<rparr>),
                (JStr ''tok'', \<lparr>ck_name = JStr ''tok'', ck_value = JStr ''xyz'',
                   ck_domain = ''.naukri.com'', ck_path = ''/'', ck_expires = Some 2000000000\<rparr>)])])],
       cookie_file = NoFile, clock = 1700000000, server = [], trace = []\<rparr>)) =
     [(JStr ''sid'', JStr ''abc'', JStr ''.naukri.com'', JNull),
      (JStr ''tok'', JStr ''xyz'', JStr ''.naukri.com'', JInt 2000000000)] \<and>
   map entry_tuple (file_entries (cookie_file (save_then_load
      \<lparr>username = ''u'', password = ''p'',
       jar = [(''.naukri.com'', [(''/'', [
                (JStr ''sid'', \<lparr>ck_name = JStr ''sid'', ck_value = JStr ''abc'',
                   ck_domain = ''.naukri.com'', ck_path = ''/'', ck_expires = None\<rparr>),
                (JStr ''tok'', \<lparr>ck_name = JStr ''tok'', ck_value = JStr ''xyz'',
                   ck_domain = ''.naukri.com'', ck_path = ''/'', ck_expires = Some 2000000000\<rparr>)])])],
       cookie_file = NoFile, clock = 1700000000, server = [], trace = []\<rparr>))) =
     [(JStr ''sid'', JStr ''abc'', JStr ''.naukri.com'', JInt 1700003600),
      (JStr ''tok'', JStr ''xyz'', JStr ''.naukri.com'', JInt 1700003600)] \<and>
   map cookie_tuple (jar_cookies (jar (save_then_load
      \<lparr>username = ''u'', password = ''p'',
       jar = [(''.naukri.com'', [(''/'', [
                (JStr ''sid'', \<lparr>ck_name = JStr ''sid'', ck_value = JStr ''abc'',
                   ck_domain = ''.naukri.com'', ck_path = ''/'', ck_expires = None\<rparr>),
                (JStr ''tok'', \<lparr>ck_name = JStr ''tok'', ck_value = JStr ''xyz'',
                   ck_domain = ''.naukri.com'', ck_path = ''/'', ck_expires = Some 2000000000\<rparr>)])])],
       cookie_file = NoFile, clock = 1700000000, server = [], trace = []\<rparr>))) =
     [(JStr ''sid'', JStr ''abc'', JStr ''.naukri.com'', JNull),
      (JStr ''tok'', JStr ''xyz'', JStr ''.naukri.com'', JNull)] \<and>
   map (\<lambda>e. triple (entry_tuple e)) (file_entries (cookie_file (save_then_load
      \<lparr>username = ''u'', password = ''p'',
       jar = [(''.naukri.com'',
                [(''/'', [(JStr ''sid'', \<lparr>ck_name = JStr ''sid'', ck_value = JStr ''abc'',
                     ck_domain = ''.naukri.com'', ck_path = ''/'', ck_expires = None\<rparr>)]),
                 (''/jobs'', [(JStr ''sid'', \<lparr>ck_name = JStr ''sid'', ck_value = JStr ''xyz'',
                     ck_domain = ''.naukri.com'', ck_path = ''/jobs'', ck_expires = None\<rparr>)])])],
       cookie_file = NoFile, clock = 1700000000, server = [], trace = []\<rparr>))) =
     [(JStr ''sid'', JStr ''abc'', JStr ''.naukri.com''),
      (JStr ''sid'', JStr ''xyz'', JStr ''.naukri.com'')] \<and>
   map (\<lambda>k. triple (cookie_tuple k)) (jar_cookies (jar (save_then_load
      \<lparr>username = ''u'', password = ''p'',
       jar = [(''.naukri.com'',
                [(''/'', [(JStr ''sid'', \<lparr>ck_name = JStr ''sid'', ck_value = JStr ''abc'',
                     ck_domain = ''.naukri.com'', ck_path = ''/'', ck_expires = None\<rparr>)]),
                 (''/jobs'', [(JStr ''sid'', \<lparr>ck_name = JStr ''sid'', ck_value = JStr ''xyz'',
                     ck_domain = ''.naukri.com'', ck_path = ''/jobs'', ck_expires = None\<rparr>)])])],
       cookie_file = NoFile, clock = 1700000000, server = [], trace = []\<rparr>))) =
     [(JStr ''sid'', JStr ''xyz'', JStr ''.naukri.com'')] \<and>
   map (\<lambda>e. triple (entry_tuple e)) (file_entries (cookie_file (save_then_load
      \<lparr>username = ''u'', password = ''p'',
       jar = [(''.naukri.com'',
                [(''/'', [(JStr ''flag'', \<lparr>ck_name = JStr ''flag'', ck_value = JNull,
                     ck_domain = ''.naukri.com'', ck_path = ''/'', ck_expires = None\<rparr>)])])],
       cookie_file = NoFile, clock = 1700000000, server = [], trace = []\<rparr>))) =
     [(JStr ''flag'', JNull, JStr ''.naukri.com'')] \<and>
   map (\<lambda>k. triple (cookie_tuple k)) (jar_cookies (jar (save_then_load
      \<lparr>username = ''u'', password = ''p'',
       jar = [(''.naukri.com'',
                [(''/'', [(JStr ''flag'', \<lparr>ck_name = JStr ''flag'', ck_value = JNull,
                     ck_domain = ''.naukri.com'', ck_path = ''/'', ck_expires = None\<rparr>)])])],
       cookie_file = NoFile, clock = 1700000000, server = [], trace = []\<rparr>))) = [] \<and>
   map (\<lambda>e. triple (entry_tuple e)) (file_entries (cookie_file (save_then_load
      \<lparr>username = ''u'', password = ''p'',
       jar = [(''.naukri.com'',
                [(''/'', [(JStr ''q'', \<lparr>ck_name = JStr ''q'', ck_value = JStr [CHR 0x22, CHR 0x5C, CHR 0x22, CHR ''x'', CHR 0x22],
                     ck_domain = ''.naukri.com'', ck_path = ''/'', ck_expires = None\<rparr>)])])],
       cookie_file = NoFile, clock = 1700000000, server = [], trace = []\<rparr>))) =
     [(JStr ''q'', JStr [CHR 0x22, CHR 0x5C, CHR 0x22, CHR ''x'', CHR 0x22], JStr ''.naukri.com'')] \<and>
   map (\<lambda>k. triple (cookie_tuple k)) (jar_cookies (jar (save_then_load
      \<lparr>username = ''u'', password = ''p'',
       jar = [(''.naukri.com'',
                [(''/'', [(JStr ''q'', \<lparr>ck_name = JStr ''q'', ck_value = JStr [CHR 0x22, CHR 0x5C, CHR 0x22, CHR ''x'', CHR 0x22],
                     ck_domain = ''.naukri.com'', ck_path = ''/'', ck_expires = None\<rparr>)])])],
       cookie_file = NoFile, clock = 1700000000, server = [], trace = []\<rparr>))) =
     [(JStr ''q'', JStr [CHR 0x22, CHR ''x'', CHR 0x22], JStr ''.naukri.com'')]"
  by (simp add: jar_defs unset_defs)

section \<open>Login\<close>

text \<open>
  Claim C4. When the server answers the login request with a JSON body that has no
  \<open>cookies\<close> field (the test \<^verbatim>\<open>"cookies" in data\<close> is not true), \<^verbatim>\<open>login\<close> raises:
  \<^verbatim>\<open>HTTPError\<close> for a 4xx or 5xx status, else the \<^verbatim>\<open>ValueError\<close> of the missing
  cookies (or the \<^verbatim>\<open>TypeError\<close> of a body that admits no \<^verbatim>\<open>in\<close>). The cookie file
  and the jar are as before, and the login request is the only one sent.
\<close>

theorem login_without_cookies:
  "server c = Reply st (Some data) # rs \<and> py_in ''cookies'' data \<noteq> Inr True \<longrightarrow>
   fst (login c) =
     Inl (if raise_for_status st then HTTPError
          else case py_in ''cookies'' data of Inl e \<Rightarrow> e | Inr b \<Rightarrow> NoCookiesInResponse) \<and>
   cookie_file (snd (login c)) = cookie_file c \<and>
   jar (snd (login c)) = jar c \<and>
   trace (snd (login c)) = trace c @ [Sent (LoginPost (username c) (password c))]"
  using send_fields [of "LoginPost (username c) (password c)" c]
        send_reply [of c st "Some data" rs "LoginPost (username c) (password c)"]
  by (auto simp: login_def split: prod.splits sum.splits bool.splits)

theorem login_without_cookies_witness:
  "login \<lparr>username = ''u'', password = ''p'', jar = [], cookie_file = NoFile,
      clock = 1700000000, server = [Reply 200 (Some (JObj [(''message'', JStr ''ok'')]))],
      trace = []\<rparr> =
   (Inl NoCookiesInResponse,
    \<lparr>username = ''u'', password = ''p'', jar = [], cookie_file = NoFile,
     clock = 1700000000, server = [], trace = [Sent (LoginPost ''u'' ''p'')]\<rparr>)"
proof -
  let ?c = "\<lparr>username = ''u'', password = ''p'', jar = [], cookie_file = NoFile,
      clock = 1700000000, server = [Reply 200 (Some (JObj [(''message'', JStr ''ok'')]))],
      trace = []\<rparr>"
  have "fst (login ?c) = Inl NoCookiesInResponse \<and> cookie_file (snd (login ?c)) = NoFile \<and>
        jar (snd (login ?c)) = [] \<and> trace (snd (login ?c)) = [Sent (LoginPost ''u'' ''p'')]"
    using login_without_cookies [of ?c 200 "JObj [(''message'', JStr ''ok'')]" "[]"]
    by (simp add: raise_for_status_def)
  moreover have "username (snd (login ?c)) = ''u'' \<and> password (snd (login ?c)) = ''p'' \<and>
      clock (snd (login ?c)) = 1700000000 \<and> server (snd (login ?c)) = []"
    by (simp add: login_fields)
  ultimately show ?thesis
    by (cases "login ?c") (auto intro: client.equality)
qed

section \<open>The expiry check before a request\<close>

text \<open>
  Claim C5, as the code has it. \<^verbatim>\<open>get_profile\<close>, and \<^verbatim>\<open>refresh_resume_headline\<close>
  through it, check the expiry of the cookie file before anything is sent, and an
  expired session sends the login request next. The script checks the expiry right
  after the construction, before it dispatches any operation, and sends the login
  request next when the file is expired or the session has no cookie.
\<close>

theorem expiry_check_first:
  "(\<exists>evs. trace (snd (get_profile c)) = trace c @ ExpiryCheck # evs \<and>
      (is_cookie_expired (cookie_file c) (clock c) \<longrightarrow>
         (\<exists>evs'. evs = Sent (LoginPost (username c) (password c)) # evs'))) \<and>
   (\<exists>evs. trace (snd (refresh_resume_headline c)) = trace c @ ExpiryCheck # evs \<and>
      (is_cookie_expired (cookie_file c) (clock c) \<longrightarrow>
         (\<exists>evs'. evs = Sent (LoginPost (username c) (password c)) # evs'))) \<and>
   (NaukriAPIClient_init (arg_user a) (arg_password a) env = Inr c0 \<longrightarrow>
      (\<exists>evs. events (snd (cli_main a env)) = ExpiryCheck # evs \<and>
         (is_cookie_expired (disk env) (time_now env) \<or> jar_cookies (jar c0) = [] \<longrightarrow>
            (\<exists>evs'. evs = Sent (LoginPost (username c0) (password c0)) # evs'))))"
proof -
  have cli: "\<exists>evs. events (snd (cli_main a env)) = ExpiryCheck # evs \<and>
         (is_cookie_expired (disk env) (time_now env) \<or> jar_cookies (jar c0) = [] \<longrightarrow>
            (\<exists>evs'. evs = Sent (LoginPost (username c0) (password c0)) # evs'))"
    if init: "NaukriAPIClient_init (arg_user a) (arg_password a) env = Inr c0"
  proof -
    from init have f0: "trace c0 = []" "cookie_file c0 = disk env" "clock c0 = time_now env"
      by (auto simp: NaukriAPIClient_init_def Let_def load_cookies_fields split: if_splits)
    let ?need = "is_cookie_expired (disk env) (time_now env) \<or> jar_cookies (jar c0) = []"
    let ?c1 = "c0\<lparr>trace := [ExpiryCheck]\<rparr>"
    let ?l = "if ?need then login ?c1 else (Inr (), ?c1)"
    have tl: "trace (snd ?l) =
        ExpiryCheck # (if ?need then [Sent (LoginPost (username c0) (password c0))] else [])"
      by (simp add: login_fields)
    obtain r c2 where l: "?l = (r, c2)" by (cases ?l)
    with tl have t2: "trace c2 =
        ExpiryCheck # (if ?need then [Sent (LoginPost (username c0) (password c0))] else [])"
      by simp
    have ext: "\<exists>zs. trace c3 = trace c2 @ zs" if "prefix (trace c2) (trace c3)" for c3
      using that by (simp add: prefix_def)
    have "\<exists>zs. events (snd (cli_main a env)) = trace c2 @ zs"
    proof (cases r)
      case (Inl e)
      with l init f0 show ?thesis
        by (simp add: cli_main_def check_expired_def events_def)
    next
      case (Inr u)
      show ?thesis
      proof (cases "given (arg_upload a)")
        case True
        let ?f = "case arg_upload a of Some f \<Rightarrow> f | None \<Rightarrow> []"
        from ext [OF upload_resume_prefix [of c2 ?f "upload_file env"]]
        obtain zs where "trace (snd (upload_resume ?f (upload_file env) c2)) = trace c2 @ zs"
          by blast
        with True Inr l init f0 show ?thesis
          by (cases "upload_resume ?f (upload_file env) c2")
            (auto simp: cli_main_def check_expired_def events_def split: sum.splits)
      next
        case False
        from ext [OF refresh_prefix [of c2]]
        obtain zs where "trace (snd (refresh_resume_headline c2)) = trace c2 @ zs"
          by blast
        with False Inr l init f0 show ?thesis
          by (cases "refresh_resume_headline c2")
            (auto simp: cli_main_def check_expired_def events_def split: sum.splits)
      qed
    qed
    with t2 show ?thesis by auto
  qed
  from get_profile_trace [of c] refresh_trace [of c] cli show ?thesis by blast
qed

theorem expiry_check_first_witness:
  "(\<exists>evs. trace (snd (get_profile \<lparr>username = ''u'', password = ''p'', jar = [],
        cookie_file = NoFile, clock = 1700000000, server = [], trace = []\<rparr>)) =
      ExpiryCheck # Sent (LoginPost ''u'' ''p'') # evs) \<and>
   (\<exists>evs. trace (snd (refresh_resume_headline \<lparr>username = ''u'', password = ''p'', jar = [],
        cookie_file = NoFile, clock = 1700000000, server = [], trace = []\<rparr>)) =
      ExpiryCheck # Sent (LoginPost ''u'' ''p'') # evs) \<and>
   (\<exists>evs. events (snd (cli_main
        \<lparr>arg_user = Some ''u'', arg_password = Some ''p'', arg_upload = Some ''cv.pdf'',
         arg_refresh = False\<rparr>
        \<lparr>env_username = None, env_password = None, disk = NoFile, time_now = 1700000000,
         replies = [], upload_file = Readable\<rparr>)) =
      ExpiryCheck # Sent (LoginPost ''u'' ''p'') # evs)"
proof -
  let ?c = "\<lparr>username = ''u'', password = ''p'', jar = [], cookie_file = NoFile,
      clock = 1700000000, server = [], trace = []\<rparr>"
  let ?a = "\<lparr>arg_user = Some ''u'', arg_password = Some ''p'', arg_upload = Some ''cv.pdf'',
         arg_refresh = False\<rparr>"
  let ?e = "\<lparr>env_username = None, env_password = None, disk = NoFile, time_now = 1700000000,
         replies = [], upload_file = Readable\<rparr>"
  have init: "NaukriAPIClient_init (arg_user ?a) (arg_password ?a) ?e = Inr ?c"
    by (simp add: NaukriAPIClient_init_def py_or_def given_def load_cookies_def)
  from expiry_check_first [of ?c ?a ?e ?c] init show ?thesis
    by auto
qed

text \<open>The claim as written fails for \<^verbatim>\<open>upload_resume\<close>: with no cookie file, so
  with an expired session, its upload request is the first thing that happens; the
  expiry check and the login come only with the profile request after it.\<close>

theorem upload_before_check_counterexample:
  "is_cookie_expired NoFile 1700000000 \<and>
   upload_resume ''cv.pdf'' Readable
     \<lparr>username = ''u'', password = ''p'', jar = [], cookie_file = NoFile, clock = 1700000000,
      server = [Reply 200 (Some (JObj [(''UR54EQmIiGvBMt'', JObj [])])),
                Reply 200 (Some (JObj [(''cookies'', JList [])])),
                Reply 200 (Some (JObj [(''profile'', JList [JObj [(''profileId'', JStr ''12345'')]])])),
                Reply 200 None],
      trace = []\<rparr> =
   (Inr (JBool True),
    \<lparr>username = ''u'', password = ''p'', jar = [], cookie_file = Content (JList []),
     clock = 1700000000, server = [],
     trace = [Sent (UploadPost ''cv.pdf''), ExpiryCheck, Sent (LoginPost ''u'' ''p''),
              Sent ProfileGet, Sent (ResumePost ''UR54EQmIiGvBMt'' (JStr ''12345''))]\<rparr>)"
  by (simp add: run_defs)

section \<open>The two payloads of a headline refresh\<close>

text \<open>
  Claim C6, as the code has it. Let the profile request return a profile with a
  profile id and a non-empty headline \<open>h\<close>. The first payload is \<open>h\<close> with its
  trailing periods stripped and one period appended, which is \<open>h\<close> with a period
  appended when \<open>h\<close> does not end in a period. If the first request is answered with
  200, the second payload is \<open>h\<close> itself, and the operation succeeds exactly when
  the second answer is 200 too. If the first request is not answered with 200, the
  second request is not sent and the operation returns \<open>False\<close>.
\<close>

theorem headline_refresh_payloads:
  "get_profile c = (Inr (JObj pkv), c1) \<and>
   map_of pkv ''profile'' = Some (JList (JObj pf # others)) \<and>
   map_of pf ''profileId'' = Some pid \<and> py_truthy pid \<and>
   map_of pf ''resumeHeadline'' = Some (JStr h) \<and> h \<noteq> [] \<longrightarrow>
     refresh_resume_headline c =
       (if next_status c1 = Some 200
        then (Inr (next_status (c1\<lparr>server := tl (server c1)\<rparr>) = Some 200),
              c1\<lparr>trace := trace c1 @ [Sent (HeadlinePost (rstrip_dot h @ ''.'') pid),
                                       Sent (HeadlinePost h pid)],
                 server := tl (tl (server c1))\<rparr>)
        else (Inr False,
              c1\<lparr>trace := trace c1 @ [Sent (HeadlinePost (rstrip_dot h @ ''.'') pid)],
                 server := tl (server c1)\<rparr>)) \<and>
     (last h \<noteq> CHR ''.'' \<longrightarrow> rstrip_dot h @ ''.'' = h @ ''.'')"
  by (simp add: refresh_resume_headline_def headline_try_result rstrip_dot_no_dot)

theorem headline_refresh_payloads_witness:
  "refresh_resume_headline
     \<lparr>username = ''u'', password = ''p'', jar = [], cookie_file = Content (JList [JObj [(''name'', JStr ''sid''), (''value'', JStr ''abc''),
        (''domain'', JStr ''.naukri.com''), (''expiry'', JInt 1700003600)]]),
      clock = 1700000000,
      server = [Reply 200 (Some (JObj [(''profile'', JList [JObj
                  [(''profileId'', JStr ''12345''),
                   (''resumeHeadline'', JStr ''Senior Engineer'')]])])),
                Reply 200 None, Reply 200 None],
      trace = []\<rparr> =
   (Inr True,
    \<lparr>username = ''u'', password = ''p'', jar = [], cookie_file = Content (JList [JObj [(''name'', JStr ''sid''), (''value'', JStr ''abc''),
        (''domain'', JStr ''.naukri.com''), (''expiry'', JInt 1700003600)]]),
     clock = 1700000000, server = [],
     trace = [ExpiryCheck, Sent ProfileGet,
              Sent (HeadlinePost ''Senior Engineer.'' (JStr ''12345'')),
              Sent (HeadlinePost ''Senior Engineer'' (JStr ''12345''))]\<rparr>) \<and>
   refresh_resume_headline
     \<lparr>username = ''u'', password = ''p'', jar = [], cookie_file = Content (JList [JObj [(''name'', JStr ''sid''), (''value'', JStr ''abc''),
        (''domain'', JStr ''.naukri.com''), (''expiry'', JInt 1700003600)]]),
      clock = 1700000000,
      server = [Reply 200 (Some (JObj [(''profile'', JList [JObj
                  [(''profileId'', JStr ''12345''),
                   (''resumeHeadline'', JStr ''Senior Engineer'')]])])),
                Reply 500 None, Reply 200 None],
      trace = []\<rparr> =
   (Inr False,
    \<lparr>username = ''u'', password = ''p'', jar = [], cookie_file = Content (JList [JObj [(''name'', JStr ''sid''), (''value'', JStr ''abc''),
        (''domain'', JStr ''.naukri.com''), (''expiry'', JInt 1700003600)]]),
     clock = 1700000000, server = [Reply 200 None],
     trace = [ExpiryCheck, Sent ProfileGet,
              Sent (HeadlinePost ''Senior Engineer.'' (JStr ''12345''))]\<rparr>)"
proof -
  let ?pf = "[(''profileId'', JStr ''12345''), (''resumeHeadline'', JStr ''Senior Engineer'')]"
  let ?pkv = "[(''profile'', JList [JObj ?pf])]"
  let ?c = "\<lambda>r. \<lparr>username = ''u'', password = ''p'', jar = [], cookie_file = Content (JList [JObj [(''name'', JStr ''sid''), (''value'', JStr ''abc''),
        (''domain'', JStr ''.naukri.com''), (''expiry'', JInt 1700003600)]]),
      clock = 1700000000, server = [Reply 200 (Some (JObj ?pkv)), r, Reply 200 None],
      trace = []\<rparr>"
  let ?c1 = "\<lambda>r. \<lparr>username = ''u'', password = ''p'', jar = [], cookie_file = Content (JList [JObj [(''name'', JStr ''sid''), (''value'', JStr ''abc''),
        (''domain'', JStr ''.naukri.com''), (''expiry'', JInt 1700003600)]]),
      clock = 1700000000, server = [r, Reply 200 None], trace = [ExpiryCheck, Sent ProfileGet]\<rparr>"
  have g: "get_profile (?c r) = (Inr (JObj ?pkv), ?c1 r)" for r
    by (simp add: run_defs)
  have d: "rstrip_dot ''Senior Engineer'' @ ''.'' = ''Senior Engineer.''"
    by (simp add: rstrip_dot_def)
  from headline_refresh_payloads
    [of "?c (Reply 200 None)" ?pkv "?c1 (Reply 200 None)" ?pf "[]" "JStr ''12345''" "''Senior Engineer''"]
    g [of "Reply 200 None"] d
  have a: "refresh_resume_headline (?c (Reply 200 None)) =
    (Inr True, (?c1 (Reply 200 None))\<lparr>trace := [ExpiryCheck, Sent ProfileGet,
              Sent (HeadlinePost ''Senior Engineer.'' (JStr ''12345'')),
              Sent (HeadlinePost ''Senior Engineer'' (JStr ''12345''))], server := []\<rparr>)"
    by (simp add: next_status_def)
  from headline_refresh_payloads
    [of "?c (Reply 500 None)" ?pkv "?c1 (Reply 500 None)" ?pf "[]" "JStr ''12345''" "''Senior Engineer''"]
    g [of "Reply 500 None"] d
  have b: "refresh_resume_headline (?c (Reply 500 None)) =
    (Inr False, (?c1 (Reply 500 None))\<lparr>trace := [ExpiryCheck, Sent ProfileGet,
              Sent (HeadlinePost ''Senior Engineer.'' (JStr ''12345''))],
              server := [Reply 200 None]\<rparr>)"
    by (simp add: next_status_def)
  from a b show ?thesis by simp
qed

text \<open>The claim as written fails for a headline that ends in a period: the first
  payload is the headline itself, not the headline with a period appended.\<close>

theorem headline_with_period_counterexample:
  "refresh_resume_headline
     \<lparr>username = ''u'', password = ''p'', jar = [], cookie_file = Content (JList [JObj [(''name'', JStr ''sid''), (''value'', JStr ''abc''),
        (''domain'', JStr ''.naukri.com''), (''expiry'', JInt 1700003600)]]),
      clock = 1700000000,
      server = [Reply 200 (Some (JObj [(''profile'', JList [JObj
                  [(''profileId'', JStr ''12345''),
                   (''resumeHeadline'', JStr ''Senior Engineer.'')]])])),
                Reply 200 None, Reply 200 None],
      trace = []\<rparr> =
   (Inr True,
    \<lparr>username = ''u'', password = ''p'', jar = [], cookie_file = Content (JList [JObj [(''name'', JStr ''sid''), (''value'', JStr ''abc''),
        (''domain'', JStr ''.naukri.com''), (''expiry'', JInt 1700003600)]]),
     clock = 1700000000, server = [],
     trace = [ExpiryCheck, Sent ProfileGet,
              Sent (HeadlinePost ''Senior Engineer.'' (JStr ''12345'')),
              Sent (HeadlinePost ''Senior Engineer.'' (JStr ''12345''))]\<rparr>)"
  by (simp add: run_defs)

section \<open>The file key of an upload\<close>



section \<open>The expiry written by a save\<close>

text \<open>
  Claim C8. The session holds a cookie with an expiry of its own, 2000000000. Saved
  at the time 1700000000, its entry in the file records 1700003600: the expiry of the
  cookie is not kept.
\<close>

theorem save_cookies_overwrites_expiry:
  "cookie_file (save_cookies \<lparr>username = ''u'', password = ''p'',
      jar = [(''.naukri.com'', [(''/'', [(JStr ''sid'',
               \<lparr>ck_name = JStr ''sid'', ck_value = JStr ''abc'', ck_domain = ''.naukri.com'',
                ck_path = ''/'', ck_expires = Some 2000000000\<rparr>)])])],
      cookie_file = NoFile, clock = 1700000000, server = [], trace = []\<rparr>) =
   Content (JList [JObj [(''name'', JStr ''sid''), (''value'', JStr ''abc''),
                         (''domain'', JStr ''.naukri.com''), (''expiry'', JInt 1700003600)]])"
  by (simp add: save_cookies_def jar_cookies_def saved_entry_def)

section \<open>Exceptions that leave an operation\<close>

text \<open>
  Claim C9. The session is valid and the server answers the profile request with
  status 500. \<^verbatim>\<open>get_profile\<close> returns \<open>None\<close>, and \<^verbatim>\<open>refresh_resume_headline\<close> calls
  \<^verbatim>\<open>.get\<close> on it outside any \<^verbatim>\<open>try\<close>: the \<^verbatim>\<open>AttributeError\<close> leaves the operation.
\<close>

theorem refresh_resume_headline_escapes:
  "refresh_resume_headline \<lparr>username = ''u'', password = ''p'', jar = [],
      cookie_file = Content (JList [JObj [(''name'', JStr ''sid''), (''value'', JStr ''abc''),
        (''domain'', JStr ''.naukri.com''), (''expiry'', JInt 1700003600)]]), clock = 1700000000, server = [Reply 500 None],
      trace = []\<rparr> =
   (Inl AttributeError,
    \<lparr>username = ''u'', password = ''p'', jar = [], cookie_file = Content (JList [JObj [(''name'', JStr ''sid''), (''value'', JStr ''abc''),
        (''domain'', JStr ''.naukri.com''), (''expiry'', JInt 1700003600)]]),
     clock = 1700000000, server = [], trace = [ExpiryCheck, Sent ProfileGet]\<rparr>)"
  by (simp add: refresh_resume_headline_def get_profile_def check_expired_def
        get_profile_try_def send_def profile_result_def)

section \<open>Credentials\<close>

text \<open>
  Claim C10. A credential is given when it is a non-empty string (\<^verbatim>\<open>x or y\<close> takes
  \<open>y\<close> for \<open>None\<close> and for the empty string alike). When neither the arguments nor
  the environment give a user name and a password, the construction raises the
  missing-credentials error, and the script ends there with no client and no event.
  When the construction succeeds, nothing has been sent, and each field is the
  explicit argument when that is given, else the value of the environment.
\<close>

theorem credentials_resolution:
  "(\<not> given user \<and> \<not> given pass \<and> \<not> given (env_username env) \<and> \<not> given (env_password env) \<longrightarrow>
      NaukriAPIClient_init user pass env = Inl MissingCredentials \<and>
      (arg_user a = user \<and> arg_password a = pass \<longrightarrow>
         cli_main a env = (Inl MissingCredentials, None) \<and> events (snd (cli_main a env)) = [])) \<and>
   (\<forall>c. NaukriAPIClient_init user pass env = Inr c \<longrightarrow>
      trace c = [] \<and>
      Some (username c) = (if given user then user else env_username env) \<and>
      Some (password c) = (if given pass then pass else env_password env))"
  by (auto simp: NaukriAPIClient_init_def cli_main_def events_def py_or_def Let_def given_def
        load_cookies_fields split: option.splits)


theorem credentials_resolution_witness:
  "NaukriAPIClient_init None None
     \<lparr>env_username = None, env_password = None, disk = NoFile, time_now = 1700000000,
      replies = [], upload_file = Missing\<rparr> = Inl MissingCredentials \<and>
   cli_main \<lparr>arg_user = None, arg_password = None, arg_upload = None, arg_refresh = True\<rparr>
     \<lparr>env_username = None, env_password = None, disk = NoFile, time_now = 1700000000,
      replies = [], upload_file = Missing\<rparr> = (Inl MissingCredentials, None) \<and>
   (\<exists>c. NaukriAPIClient_init (Some ''cli'') None
     \<lparr>env_username = Some ''envuser'', env_password = Some ''envpw'', disk = NoFile,
      time_now = 1700000000, replies = [], upload_file = Missing\<rparr> = Inr c \<and>
     username c = ''cli'' \<and> password c = ''envpw'')"
proof -
  let ?e0 = "\<lparr>env_username = None, env_password = None, disk = NoFile,
               time_now = 1700000000, replies = [], upload_file = Missing\<rparr>"
  let ?a0 = "\<lparr>arg_user = None, arg_password = None, arg_upload = None, arg_refresh = True\<rparr>"
  let ?e1 = "\<lparr>env_username = Some ''envuser'', env_password = Some ''envpw'', disk = NoFile,
               time_now = 1700000000, replies = [], upload_file = Missing\<rparr>"
  have absent: "\<not> given None" by (simp add: given_def)
  from credentials_resolution [of None None ?e0 ?a0] absent
  have a: "NaukriAPIClient_init None None ?e0 = Inl MissingCredentials"
    and b: "cli_main ?a0 ?e0 = (Inl MissingCredentials, None)"
    by simp_all
  obtain c where c: "NaukriAPIClient_init (Some ''cli'') None ?e1 = Inr c"
    by (simp add: NaukriAPIClient_init_def py_or_def given_def)
  from credentials_resolution [of "Some ''cli''" None ?e1 ?a0] c absent
  have "username c = ''cli'' \<and> password c = ''envpw''"
    by (simp add: given_def)
  with a b c show ?thesis by blast
qed

end
